theory Spec2Isabelle
  imports Complex_Main
begin

section \<open>Numbers and errors\<close>

text \<open>
  The Python code computes with floats (and, for PMF probabilities, with any number type
  that supports \<open><\<close>, \<open>sum\<close> and \<open>float\<close>). They are modelled as real numbers:
  rounding, NaN and infinities are outside the model. \<open>math.radians\<close>, \<open>math.sin\<close>,
  \<open>math.cos\<close>, \<open>math.tan\<close> and \<open>math.sqrt\<close> are the real functions, with the
  exceptions Python raises (\<open>math.sqrt\<close> of a negative number, division by zero) written
  out as branches of the model.
\<close>

datatype error =
    SourceError string
  | ValueError string
  | AssertionError
  | ZeroDivisionError

definition radians :: "real \<Rightarrow> real" where
  "radians d = d * pi / 180"

definition py_float :: "real \<Rightarrow> real" where
  "py_float x = x"

text \<open>Python's \<open>x % m\<close> on floats for a positive \<open>m\<close>: the result is in \<open>[0, m)\<close>.\<close>

definition py_mod :: "real \<Rightarrow> real \<Rightarrow> real" where
  "py_mod x m = x - m * of_int \<lfloor>x / m\<rfloor>"

section \<open>Data model\<close>

text \<open>
  \<open>Point\<close>, \<open>NodalPlane\<close>, \<open>PlanarSurface\<close> and \<open>ProbabilisticRupture\<close> are
  imported by \<open>point.py\<close> from modules that are not part of the sources. They are the
  plain value types of the specification's data model.
\<close>

record point =
  longitude :: real
  latitude :: real
  depth :: real

record nodal_plane =
  strike :: real
  dip :: real
  rake :: real

record planar_surface =
  top_left :: point
  top_right :: point
  bottom_right :: point
  bottom_left :: point

record 'a pmf =
  data :: "(real \<times> 'a) list"

section \<open>\<open>pmf.py\<close>: the probability mass function\<close>

text \<open>
  \<open>PMF.__init__(self, data, epsilon=1E-15)\<close>. The first statement,
  \<open>probs, values = zip(*data)\<close>, unpacks the transposed data into exactly two names: for
  an empty \<open>data\<close> the transposition is empty and the unpacking raises \<open>ValueError\<close>.
  For a list of pairs it gives the probabilities and the values.
\<close>

definition default_epsilon :: real where
  "default_epsilon = 1 / 10 ^ 15"

definition PMF_init :: "(real \<times> 'a) list \<Rightarrow> real \<Rightarrow> error + 'a pmf" where
  "PMF_init dat epsilon =
     (if dat = [] then Inl (ValueError ''need more than 0 values to unpack'')
      else
        let probs = map fst dat;
            values = map snd dat
        in if list_ex (\<lambda>prob. prob < 0) probs
           then Inl (ValueError ''a probability is not positive'')
           else if \<bar>py_float (sum_list probs) - 1\<bar> > epsilon
           then Inl (ValueError ''probabilities do not sum up to 1.0'')
           else Inr \<lparr>data = zip (map py_float probs) values\<rparr>)"

section \<open>\<open>point.py\<close>: the point source\<close>

text \<open>
  The magnitude-frequency distribution enters \<open>point.py\<close> only through the pairs that
  \<open>self.mfd.get_annual_occurrence_rates()\<close> iterates over, and the magnitude-scaling
  relationship only through \<open>get_median_area(mag, rake)\<close>: the first is the list of
  (magnitude, rate) pairs, the second a function.
\<close>

type_synonym mfd = "(real \<times> real) list"
type_synonym msr = "real \<Rightarrow> real \<Rightarrow> real"

record seismic_source =
  source_id :: string
  name :: string
  tectonic_region_type :: string
  mfd :: mfd

record point_source = seismic_source +
  location :: point
  nodal_plane_distribution :: "nodal_plane pmf"
  hypocenter_distribution :: "real pmf"
  upper_seismogenic_depth :: real
  lower_seismogenic_depth :: real
  magnitude_scaling_relationship :: msr
  rupture_aspect_ratio :: real

record 'tom probabilistic_rupture =
  rup_mag :: real
  rup_nodal_plane :: nodal_plane
  rup_tectonic_region_type :: string
  rup_hypocenter :: point
  rup_surface :: planar_surface
  rup_occurrence_rate :: real
  rup_temporal_occurrence_model :: 'tom

subsection \<open>Construction\<close>

text \<open>
  The object under construction, as \<open>PointSource.__init__\<close> can leave it:
  \<open>Base_initialised\<close> once the base class has stored its four attributes, and
  \<open>Initialised\<close> once the seven assignments at the end of \<open>PointSource.__init__\<close>
  have run. Nothing that can fail stands between the first and the last of the seven.
\<close>

datatype self_state =
    Base_initialised seismic_source
  | Initialised point_source

text \<open>
  Modelled from the spec: \<open>SeismicSource.__init__\<close> (module \<open>nhe.source.base\<close>, not
  part of the sources) stores the id, the name, the tectonic region type and the
  magnitude-frequency distribution; the specification names no failure of it.
\<close>

definition SeismicSource_init :: "string \<Rightarrow> string \<Rightarrow> string \<Rightarrow> mfd \<Rightarrow> seismic_source" where
  "SeismicSource_init sid nm trt m =
     \<lparr>source_id = sid, name = nm, tectonic_region_type = trt, mfd = m\<rparr>"

text \<open>
  \<open>PointSource.__init__\<close> returns the exception it raised, if any, and the state in which
  it left \<open>self\<close>.
\<close>

definition PointSource_init ::
  "string \<Rightarrow> string \<Rightarrow> string \<Rightarrow> mfd \<Rightarrow> point \<Rightarrow> nodal_plane pmf \<Rightarrow> real pmf \<Rightarrow>
   real \<Rightarrow> real \<Rightarrow> msr \<Rightarrow> real \<Rightarrow> error option \<times> self_state" where
  "PointSource_init sid nm trt m loc npd hcd usd lsd rel rar =
     (let base = SeismicSource_init sid nm trt m in
      if usd < 0
      then (Some (SourceError ''upper seismogenic depth must be non-negative''),
            Base_initialised base)
      else if \<not> lsd > usd
      then (Some (SourceError
              ''lower seismogenic depth must be below upper seismogenic depth''),
            Base_initialised base)
      else if \<not> list_all (\<lambda>(prob, depth). usd \<le> depth \<and> depth \<le> lsd) (data hcd)
      then (Some (SourceError
              ''depths of all hypocenters must be in between lower and upper seismogenic depths''),
            Base_initialised base)
      else if \<not> rar > 0
      then (Some (SourceError ''rupture aspect ratio must be positive''),
            Base_initialised base)
      else (None,
            Initialised (seismic_source.extend base
              \<lparr>location = loc,
               nodal_plane_distribution = npd,
               hypocenter_distribution = hcd,
               upper_seismogenic_depth = usd,
               lower_seismogenic_depth = lsd,
               magnitude_scaling_relationship = rel,
               rupture_aspect_ratio = rar\<rparr>)))"

text \<open>
  The expression \<open>PointSource(...)\<close>: the caller gets the object when \<open>__init__\<close>
  returned normally, and the exception otherwise. An object whose \<open>__init__\<close> returned
  without storing the attributes of a point source would fail with \<open>AttributeError\<close>
  at its first use; no path of \<open>__init__\<close> produces one.
\<close>

datatype construction_error = Raised error | AttributeError

definition PointSource ::
  "string \<Rightarrow> string \<Rightarrow> string \<Rightarrow> mfd \<Rightarrow> point \<Rightarrow> nodal_plane pmf \<Rightarrow> real pmf \<Rightarrow>
   real \<Rightarrow> real \<Rightarrow> msr \<Rightarrow> real \<Rightarrow> construction_error + point_source" where
  "PointSource sid nm trt m loc npd hcd usd lsd rel rar =
     (case PointSource_init sid nm trt m loc npd hcd usd lsd rel rar of
        (Some e, s) \<Rightarrow> Inl (Raised e)
      | (None, s) \<Rightarrow> (case s of Initialised src \<Rightarrow> Inr src | _ \<Rightarrow> Inl AttributeError))"

subsection \<open>Rupture dimensions\<close>

text \<open>
  \<open>_get_rupture_dimensions(self, mag, nodal_plane)\<close>. \<open>math.sqrt\<close> raises
  \<open>ValueError\<close> on a negative argument, and each of the three divisions raises
  \<open>ZeroDivisionError\<close> on a zero divisor.
\<close>

definition get_rupture_dimensions :: "point_source \<Rightarrow> real \<Rightarrow> nodal_plane \<Rightarrow> error + real \<times> real" where
  "get_rupture_dimensions self mag np =
     (let area = magnitude_scaling_relationship self mag (rake np) in
      if area * rupture_aspect_ratio self < 0 then Inl (ValueError ''math domain error'')
      else
        let rup_length = sqrt (area * rupture_aspect_ratio self) in
        if rup_length = 0 then Inl ZeroDivisionError
        else
          let rup_width = area / rup_length;
              seismogenic_layer_width = lower_seismogenic_depth self - upper_seismogenic_depth self
          in if sin (radians (dip np)) = 0 then Inl ZeroDivisionError
             else
               let max_width = seismogenic_layer_width / sin (radians (dip np)) in
               if rup_width > max_width
               then (if max_width = 0 then Inl ZeroDivisionError
                     else Inr (area / max_width, max_width))
               else Inr (rup_length, rup_width))"

subsection \<open>Rupture surface\<close>

text \<open>
  Lines 201 to 213 of \<open>_get_rupture_surface\<close>: the vertical shift of the rupture centre,
  from the seismogenic depths, the hypocenter depth and the half height of the rupture.
\<close>

definition rupture_vshift :: "real \<Rightarrow> real \<Rightarrow> real \<Rightarrow> real \<Rightarrow> real" where
  "rupture_vshift usd lsd hdepth hheight =
     (let vshift = usd - hdepth + hheight in
      if vshift < 0
      then (let vshift = lsd - hdepth - hheight in
            if vshift > 0 then 0 else vshift)
      else vshift)"

text \<open>
  \<open>Point.point_at(horizontal_distance, vertical_increment, azimuth)\<close> belongs to module
  \<open>nhe.geo\<close>, which is not part of the sources: it is the parameter \<open>point_at\<close> of the
  functions below, applied to the point and the three arguments in that order.
\<close>

type_synonym point_at = "point \<Rightarrow> real \<Rightarrow> real \<Rightarrow> real \<Rightarrow> point"

text \<open>
  \<open>_get_rupture_surface(self, mag, nodal_plane, hypocenter)\<close>. The division by
  \<open>math.tan(rdip)\<close> raises when the tangent is zero. In HOL \<open>tan x\<close> is also \<open>0\<close>
  where \<open>cos x = 0\<close>, and \<open>v / 0 = 0\<close>; there (a vertical fault) Python's tangent is
  about \<open>1.6e16\<close> and the horizontal shift it computes is negligible, so the branch that
  raises is the one where the sine is zero.
\<close>

definition get_rupture_surface ::
  "point_at \<Rightarrow> point_source \<Rightarrow> real \<Rightarrow> nodal_plane \<Rightarrow> point \<Rightarrow> error + planar_surface" where
  "get_rupture_surface point_at self mag np hypocenter =
     (if \<not> (upper_seismogenic_depth self \<le> depth hypocenter
             \<and> lower_seismogenic_depth self \<ge> depth hypocenter)
      then Inl AssertionError
      else
        let rdip = radians (dip np);
            azimuth_right = strike np;
            azimuth_down = py_mod (azimuth_right + 90) 360;
            azimuth_left = py_mod (azimuth_down + 90) 360;
            azimuth_up = py_mod (azimuth_left + 90) 360
        in case get_rupture_dimensions self mag np of
             Inl e \<Rightarrow> Inl e
           | Inr (rup_length, rup_width) \<Rightarrow>
               let rup_proj_height = rup_width * sin rdip;
                   rup_proj_width = rup_width * cos rdip;
                   hheight = rup_proj_height / 2;
                   vshift = rupture_vshift (upper_seismogenic_depth self)
                              (lower_seismogenic_depth self) (depth hypocenter) hheight
               in if vshift \<noteq> 0 \<and> sin rdip = 0 then Inl ZeroDivisionError
                  else
                    let rupture_center =
                          (if vshift \<noteq> 0
                           then point_at hypocenter \<bar>vshift / tan rdip\<bar> vshift
                                  (if vshift < 0 then azimuth_up else azimuth_down)
                           else hypocenter);
                        right_center = point_at rupture_center (rup_length / 2) 0 azimuth_right;
                        right_bottom = point_at right_center (rup_proj_width / 2)
                                         (rup_proj_height / 2) azimuth_down;
                        right_top = point_at right_bottom rup_proj_width (- rup_proj_height)
                                      azimuth_up;
                        left_top = point_at right_top rup_length 0 azimuth_left;
                        left_bottom = point_at right_bottom rup_length 0 azimuth_left
                    in Inr \<lparr>top_left = left_top, top_right = right_top,
                            bottom_right = right_bottom, bottom_left = left_bottom\<rparr>)"

subsection \<open>Rupture enumeration\<close>

text \<open>
  \<open>_iter_ruptures_at_location\<close> is a generator function: calling it runs none of its
  body and returns a generator object, and each \<open>next\<close> runs the body up to the next
  \<open>yield\<close>. The generator object keeps the arguments of the call and the position in
  the body: \<open>Created\<close> before the first \<open>next\<close>; \<open>Suspended ms ns hs\<close> at the
  \<open>yield\<close>, where \<open>ms\<close> and \<open>ns\<close> start with the current items of the two outer
  \<open>for\<close> statements and \<open>hs\<close> holds the items the innermost one has not reached yet;
  \<open>Finished\<close> after the body has returned or raised.
\<close>

datatype 'r outcome = Yield 'r | Raise error | StopIteration

datatype gen_state =
    Created
  | Suspended "(real \<times> real) list" "(real \<times> nodal_plane) list" "(real \<times> real) list"
  | Finished

record 'tom generator =
  gen_self :: point_source
  gen_temporal_occurrence_model :: 'tom
  gen_location :: point
  gen_rate_scaling_factor :: real
  gen_state :: gen_state

text \<open>
  Lines 112 to 122: the body of the innermost loop, for one item of each of the three
  sequences. It fails when the construction of the surface does.
\<close>

definition loop_body ::
  "point_at \<Rightarrow> point_source \<Rightarrow> 'tom \<Rightarrow> point \<Rightarrow> real \<Rightarrow>
   real \<times> real \<Rightarrow> real \<times> nodal_plane \<Rightarrow> real \<times> real \<Rightarrow> error + 'tom probabilistic_rupture" where
  "loop_body point_at self temporal_occurrence_model loc rate_scaling_factor m n h =
     (case (m, n, h) of ((mag, mag_occ_rate), (np_prob, np), (hc_prob, hc_depth)) \<Rightarrow>
        let hypocenter = \<lparr>longitude = longitude loc, latitude = latitude loc, depth = hc_depth\<rparr>;
            occurrence_rate = mag_occ_rate * py_float np_prob * py_float hc_prob;
            occurrence_rate = occurrence_rate * rate_scaling_factor
        in (case get_rupture_surface point_at self mag np hypocenter of
              Inl e \<Rightarrow> Inl e
            | Inr surface \<Rightarrow>
                Inr \<lparr>rup_mag = mag, rup_nodal_plane = np,
                     rup_tectonic_region_type = tectonic_region_type self,
                     rup_hypocenter = hypocenter, rup_surface = surface,
                     rup_occurrence_rate = occurrence_rate,
                     rup_temporal_occurrence_model = temporal_occurrence_model\<rparr>))"

text \<open>
  The three nested \<open>for\<close> statements, resumed at the position \<open>(ms, ns, hs)\<close> and run up to
  the next \<open>yield\<close>, to an exception or to the end. \<open>nps\<close> and \<open>hcs\<close> are the data
  of the two PMFs, over which an inner loop starts again at each item of the loop around it.
\<close>

fun resume_body ::
  "(real \<times> real \<Rightarrow> real \<times> nodal_plane \<Rightarrow> real \<times> real \<Rightarrow> error + 'r) \<Rightarrow>
   (real \<times> nodal_plane) list \<Rightarrow> (real \<times> real) list \<Rightarrow>
   (real \<times> real) list \<Rightarrow> (real \<times> nodal_plane) list \<Rightarrow> (real \<times> real) list \<Rightarrow>
   'r outcome \<times> gen_state" where
  "resume_body body nps hcs [] ns hs = (StopIteration, Finished)"
| "resume_body body nps hcs (m # ms) [] hs = resume_body body nps hcs ms nps hcs"
| "resume_body body nps hcs (m # ms) (n # ns) [] = resume_body body nps hcs (m # ms) ns hcs"
| "resume_body body nps hcs (m # ms) (n # ns) (h # hs) =
     (case body m n h of
        Inl e \<Rightarrow> (Raise e, Finished)
      | Inr r \<Rightarrow> (Yield r, Suspended (m # ms) (n # ns) hs))"

text \<open>
  \<open>next(g)\<close>. The first call runs the assertion of line 108 before anything else.
\<close>

definition gen_next ::
  "point_at \<Rightarrow> 'tom generator \<Rightarrow> 'tom probabilistic_rupture outcome \<times> 'tom generator" where
  "gen_next point_at g =
     (let self = gen_self g;
          body = loop_body point_at self (gen_temporal_occurrence_model g) (gen_location g)
                   (gen_rate_scaling_factor g);
          nps = data (nodal_plane_distribution self);
          hcs = data (hypocenter_distribution self)
      in case gen_state g of
           Created \<Rightarrow>
             if \<not> 0 < gen_rate_scaling_factor g
             then (Raise AssertionError, g\<lparr>gen_state := Finished\<rparr>)
             else (case resume_body body nps hcs (mfd self) nps hcs of
                     (out, st) \<Rightarrow> (out, g\<lparr>gen_state := st\<rparr>))
         | Suspended ms ns hs \<Rightarrow>
             (case resume_body body nps hcs ms ns hs of
                (out, st) \<Rightarrow> (out, g\<lparr>gen_state := st\<rparr>))
         | Finished \<Rightarrow> (StopIteration, g))"

text \<open>
  The two calls. The default of \<open>rate_scaling_factor\<close> is \<open>1\<close>, which is what
  \<open>iter_ruptures\<close> passes.
\<close>

definition iter_ruptures_at_location ::
  "point_source \<Rightarrow> 'tom \<Rightarrow> point \<Rightarrow> real \<Rightarrow> error + 'tom generator" where
  "iter_ruptures_at_location self temporal_occurrence_model loc rate_scaling_factor =
     Inr \<lparr>gen_self = self, gen_temporal_occurrence_model = temporal_occurrence_model,
          gen_location = loc, gen_rate_scaling_factor = rate_scaling_factor,
          gen_state = Created\<rparr>"

definition iter_ruptures :: "point_source \<Rightarrow> 'tom \<Rightarrow> error + 'tom generator" where
  "iter_ruptures self temporal_occurrence_model =
     iter_ruptures_at_location self temporal_occurrence_model (location self) 1"

text \<open>
  The outcomes of the first \<open>k\<close> calls of \<open>next\<close> on a generator.
\<close>

fun gen_take :: "nat \<Rightarrow> point_at \<Rightarrow> 'tom generator \<Rightarrow> 'tom probabilistic_rupture outcome list" where
  "gen_take 0 point_at g = []"
| "gen_take (Suc k) point_at g =
     (case gen_next point_at g of (out, g') \<Rightarrow> out # gen_take k point_at g')"

section \<open>The behaviour the specification describes\<close>

text \<open>
  The results of the loop body for the combinations that a generator in a given position
  has not produced yet, in the order of the specification: magnitudes outermost, nodal
  planes next, hypocenter depths innermost.
\<close>

definition full_np where
  "full_np body hcs m ns = concat (map (\<lambda>n. map (body m n) hcs) ns)"

definition full_mag where
  "full_mag body nps hcs ms = concat (map (\<lambda>m. full_np body hcs m nps) ms)"

fun remaining where
  "remaining body nps hcs [] ns hs = []"
| "remaining body nps hcs (m # ms) [] hs = full_mag body nps hcs ms"
| "remaining body nps hcs (m # ms) (n # ns) hs =
     map (body m n) hs @ full_np body hcs m ns @ full_mag body nps hcs ms"

text \<open>
  What \<open>k\<close> calls of \<open>next\<close> give on a generator with a given list of results
  ahead: the ruptures one by one; at the first failure its exception; and
  \<open>StopIteration\<close> ever after.
\<close>

fun trace :: "(error + 'r) list \<Rightarrow> nat \<Rightarrow> 'r outcome list" where
  "trace xs 0 = []"
| "trace [] (Suc k) = StopIteration # replicate k StopIteration"
| "trace (Inl e # xs) (Suc k) = Raise e # replicate k StopIteration"
| "trace (Inr r # xs) (Suc k) = Yield r # trace xs k"

text \<open>
  Steps 6 to 8 of the specification's surface construction, in its words: the centre is
  the hypocenter moved by the shift, down dip when the shift is positive and up dip when
  it is negative; the opposite of the strike azimuth is \<open>strike + 180\<close> and the opposite
  of the down-dip azimuth \<open>strike + 270\<close>, both modulo 360.
\<close>

definition spec_rupture_center :: "point_at \<Rightarrow> nodal_plane \<Rightarrow> point \<Rightarrow> real \<Rightarrow> point" where
  "spec_rupture_center point_at np hypocenter shift =
     (if shift = 0 then hypocenter
      else point_at hypocenter \<bar>shift / tan (radians (dip np))\<bar> shift
             (if 0 < shift then py_mod (strike np + 90) 360
              else py_mod (strike np + 270) 360))"

definition spec_corners ::
  "point_at \<Rightarrow> nodal_plane \<Rightarrow> point \<Rightarrow> real \<Rightarrow> real \<Rightarrow> planar_surface" where
  "spec_corners point_at np center len wid =
     (let along_strike = strike np;
          down_dip = py_mod (strike np + 90) 360;
          reverse_strike = py_mod (strike np + 180) 360;
          up_dip = py_mod (strike np + 270) 360;
          proj_height = wid * sin (radians (dip np));
          proj_width = wid * cos (radians (dip np));
          right_center = point_at center (len / 2) 0 along_strike;
          right_bottom = point_at right_center (proj_width / 2) (proj_height / 2) down_dip;
          right_top = point_at right_bottom proj_width (- proj_height) up_dip;
          left_top = point_at right_top len 0 reverse_strike;
          left_bottom = point_at right_bottom len 0 reverse_strike
      in \<lparr>top_left = left_top, top_right = right_top,
          bottom_right = right_bottom, bottom_left = left_bottom\<rparr>)"

section \<open>A concrete source\<close>

text \<open>
  A vertical fault plane, a scaling relationship with a constant area of 4 square km, and
  a source with two magnitudes, one nodal plane and two hypocenter depths. The projection
  moves a point on a flat Earth and adds the vertical increment to its depth.
\<close>

definition example_plane :: nodal_plane where
  "example_plane = \<lparr>strike = 0, dip = 90, rake = 0\<rparr>"

definition example_msr :: msr where
  "example_msr mag rk = 4"

definition example_source :: point_source where
  "example_source =
     \<lparr>source_id = ''1'', name = ''point'', tectonic_region_type = ''Active Shallow Crust'',
      mfd = [(5, 1 / 10), (6, 1 / 100)],
      location = \<lparr>longitude = 0, latitude = 0, depth = 0\<rparr>,
      nodal_plane_distribution = \<lparr>data = [(1, example_plane)]\<rparr>,
      hypocenter_distribution = \<lparr>data = [(1 / 2, 1 / 2), (1 / 2, 5)]\<rparr>,
      upper_seismogenic_depth = 0, lower_seismogenic_depth = 10,
      magnitude_scaling_relationship = example_msr, rupture_aspect_ratio = 1\<rparr>"

definition example_point_at :: point_at where
  "example_point_at p horizontal_distance vertical_increment azimuth =
     p\<lparr>longitude := longitude p + horizontal_distance * sin (radians azimuth),
       latitude := latitude p + horizontal_distance * cos (radians azimuth),
       depth := depth p + vertical_increment\<rparr>"

section \<open>The azimuth of the geodetic primitives\<close>

text \<open>
  Modelled from the spec: \<open>geodetic.azimuth\<close> (module \<open>nhlib.geo.geodetic\<close>, of which
  only the tests are part of the sources). The specification describes it as the initial
  bearing from point 1 to point 2, in degrees in \<open>[0, 360)\<close>, with the trigonometry done
  in radians: the bearing of the great circle through the two points at the first one,
  measured clockwise from north, which is the two-argument arctangent of the east and the
  north component of the direction. As in Python, the two-argument arctangent has a value
  everywhere, also at the origin.
\<close>

definition degrees :: "real \<Rightarrow> real" where
  "degrees r = r * 180 / pi"

definition atan2 :: "real \<Rightarrow> real \<Rightarrow> real" where
  "atan2 y x =
     (if 0 < x then arctan (y / x)
      else if x < 0 then (if 0 \<le> y then arctan (y / x) + pi else arctan (y / x) - pi)
      else if 0 < y then pi / 2
      else if y < 0 then - (pi / 2)
      else 0)"

definition azimuth :: "real \<Rightarrow> real \<Rightarrow> real \<Rightarrow> real \<Rightarrow> real" where
  "azimuth lon1 lat1 lon2 lat2 =
     (let phi1 = radians lat1;
          phi2 = radians lat2;
          dlon = radians lon2 - radians lon1;
          bearing = atan2 (sin dlon * cos phi2)
                      (cos phi1 * sin phi2 - sin phi1 * cos phi2 * cos dlon)
      in py_mod (degrees bearing) 360)"

section \<open>Properties of the probability mass function\<close>

lemma zip_fst_snd: "zip (map fst xs) (map snd xs) = xs"
  by (induction xs) auto

lemma py_float_comp: "py_float \<circ> f = f"
  by (simp add: fun_eq_iff py_float_def)

lemma PMF_init_nonempty:
  assumes "dat \<noteq> []"
  shows "PMF_init dat epsilon =
     (if (\<exists>p \<in> set (map fst dat). p < 0) \<or> \<bar>sum_list (map fst dat) - 1\<bar> > epsilon
      then (if (\<exists>p \<in> set (map fst dat). p < 0)
            then Inl (ValueError ''a probability is not positive'')
            else Inl (ValueError ''probabilities do not sum up to 1.0''))
      else Inr \<lparr>data = dat\<rparr>)"
  using assms
  by (simp add: PMF_init_def Let_def py_float_def py_float_comp list_ex_iff zip_fst_snd)

text \<open>
  Claim C5. For a non-empty list of (probability, value) pairs and a tolerance
  \<open>epsilon \<ge> 0\<close>, constructing a PMF raises \<open>ValueError\<close> exactly when some probability
  is negative or the sum of the probabilities differs from 1 by more than \<open>epsilon\<close>.
  Otherwise the PMF holds the pairs in their order, the probabilities converted to float;
  in particular a pair whose probability is exactly 0 is accepted.
\<close>

theorem PMF_init_raises_iff:
  assumes "dat \<noteq> []" and "0 \<le> epsilon"
  shows "((\<exists>msg. PMF_init dat epsilon = Inl (ValueError msg)) \<longleftrightarrow>
            ((\<exists>(prob, v) \<in> set dat. prob < 0) \<or> \<bar>sum_list (map fst dat) - 1\<bar> > epsilon))
       \<and> ((\<forall>e. PMF_init dat epsilon \<noteq> Inl e) \<longrightarrow>
            PMF_init dat epsilon = Inr \<lparr>data = map (\<lambda>(prob, v). (py_float prob, v)) dat\<rparr>)
       \<and> (PMF_init ((0, v0) # dat) epsilon = Inr \<lparr>data = (0, v0) # dat\<rparr> \<longleftrightarrow>
            PMF_init dat epsilon = Inr \<lparr>data = dat\<rparr>)"
proof (intro conjI)
  have ex: "(\<exists>(prob, v) \<in> set dat. prob < 0) \<longleftrightarrow> (\<exists>p \<in> set (map fst dat). p < 0)"
    by force
  show "(\<exists>msg. PMF_init dat epsilon = Inl (ValueError msg)) \<longleftrightarrow>
          ((\<exists>(prob, v) \<in> set dat. prob < 0) \<or> \<bar>sum_list (map fst dat) - 1\<bar> > epsilon)"
    unfolding ex using PMF_init_nonempty [OF assms(1), of epsilon] by auto
  have id: "map (\<lambda>(prob, v). (py_float prob, v)) dat = dat"
    by (induction dat) (auto simp: py_float_def)
  show "(\<forall>e. PMF_init dat epsilon \<noteq> Inl e) \<longrightarrow>
          PMF_init dat epsilon = Inr \<lparr>data = map (\<lambda>(prob, v). (py_float prob, v)) dat\<rparr>"
    unfolding id using PMF_init_nonempty [OF assms(1), of epsilon]
    by (auto split: if_splits)
  have ne: "(0, v0) # dat \<noteq> []" by simp
  show "PMF_init ((0, v0) # dat) epsilon = Inr \<lparr>data = (0, v0) # dat\<rparr> \<longleftrightarrow>
          PMF_init dat epsilon = Inr \<lparr>data = dat\<rparr>"
    using PMF_init_nonempty [OF assms(1), of epsilon] PMF_init_nonempty [OF ne, of epsilon]
    by (auto split: if_splits)
qed

theorem PMF_init_raises_iff_witness:
  "PMF_init [(0, ''a''), (1 / 2, ''b''), (1 / 2, ''c'')] default_epsilon
     = Inr \<lparr>data = [(0, ''a''), (1 / 2, ''b''), (1 / 2, ''c'')]\<rparr>
   \<and> (\<exists>msg. PMF_init [(1 / 2, ''b''), (1, ''c'')] default_epsilon = Inl (ValueError msg))"
proof -
  have ne: "[(1 / 2 :: real, ''b''), (1 / 2, ''c'')] \<noteq> []" by simp
  have eps: "0 \<le> default_epsilon" by (simp add: default_epsilon_def)
  have ok: "PMF_init [(1 / 2, ''b''), (1 / 2, ''c'')] default_epsilon
              = Inr \<lparr>data = [(1 / 2, ''b''), (1 / 2, ''c'')]\<rparr>"
    by (simp add: PMF_init_def py_float_def default_epsilon_def)
  have ne2: "[(1 / 2 :: real, ''b''), (1, ''c'')] \<noteq> []" by simp
  have bad: "\<bar>sum_list (map fst [(1 / 2 :: real, ''b''), (1, ''c'')]) - 1\<bar> > default_epsilon"
    by (simp add: default_epsilon_def)
  show ?thesis
    using PMF_init_raises_iff [OF ne eps, of "''a''"] ok
          PMF_init_raises_iff [OF ne2 eps, of "''a''"] bad
    by blast
qed

text \<open>
  Claim C9. Constructing a PMF from an empty sequence always raises, whatever the
  tolerance, so every PMF that was constructed holds at least one pair.
\<close>

theorem PMF_init_empty_raises:
  "(\<exists>e. PMF_init ([] :: (real \<times> 'a) list) epsilon = Inl e)
   \<and> (\<forall>(dat :: (real \<times> 'a) list) p. PMF_init dat epsilon = Inr p \<longrightarrow> data p \<noteq> [])"
proof (intro conjI allI impI)
  show "\<exists>e. PMF_init ([] :: (real \<times> 'a) list) epsilon = Inl e"
    by (simp add: PMF_init_def)
next
  fix dat :: "(real \<times> 'a) list" and p
  assume ok: "PMF_init dat epsilon = Inr p"
  then have ne: "dat \<noteq> []"
    by (auto simp: PMF_init_def)
  from ok PMF_init_nonempty [OF ne, of epsilon] have "p = \<lparr>data = dat\<rparr>"
    by (auto split: if_splits)
  with ne show "data p \<noteq> []" by simp
qed

theorem PMF_init_empty_raises_witness:
  "(\<exists>e. PMF_init ([] :: (real \<times> string) list) default_epsilon = Inl e)
   \<and> PMF_init [(1, ''a'')] default_epsilon = Inr \<lparr>data = [(1, ''a'')]\<rparr>
   \<and> data \<lparr>data = [(1 :: real, ''a'')]\<rparr> \<noteq> []"
proof -
  have ok: "PMF_init [(1, ''a'')] default_epsilon = Inr \<lparr>data = [(1, ''a'')]\<rparr>"
    by (simp add: PMF_init_def py_float_def default_epsilon_def)
  from PMF_init_empty_raises [where ?'a = string, of default_epsilon] ok
  show ?thesis by blast
qed

section \<open>Properties of the construction\<close>

lemma PointSource_Inr:
  assumes "PointSource sid nm trt m loc npd hcd usd lsd rel rar = Inr src"
  shows "0 \<le> usd" "usd < lsd" "0 < rar"
    "\<forall>(prob, d) \<in> set (data hcd). usd \<le> d \<and> d \<le> lsd"
    "mfd src = m" "tectonic_region_type src = trt" "location src = loc"
    "nodal_plane_distribution src = npd" "hypocenter_distribution src = hcd"
    "upper_seismogenic_depth src = usd" "lower_seismogenic_depth src = lsd"
    "magnitude_scaling_relationship src = rel" "rupture_aspect_ratio src = rar"
  using assms
  by (auto simp: PointSource_def PointSource_init_def SeismicSource_init_def Let_def
        seismic_source.extend_def list_all_iff split: if_splits)

lemma sin_radians_pos: "0 < d \<Longrightarrow> d \<le> 90 \<Longrightarrow> 0 < sin (radians d)"
  by (rule sin_gt_zero) (auto simp: radians_def field_simps)

lemma list_all_depths:
  "list_all (\<lambda>(prob, depth). usd \<le> depth \<and> depth \<le> lsd) xs
     \<longleftrightarrow> \<not> (\<exists>(prob, d) \<in> set xs. d < usd \<or> lsd < (d::real))"
  by (auto simp: list_all_iff)

text \<open>
  Claim C4. \<open>PointSource.__init__\<close> raises \<open>SourceError\<close> exactly when the upper
  seismogenic depth is negative, or the lower one is not greater than the upper one, or
  a hypocenter depth lies outside the two, or the aspect ratio is not positive. When it
  raises, \<open>self\<close> holds the attributes of the base class only, none of the point source's
  own, and the caller gets the exception and no object; when it does not, the caller
  gets the initialised object.
\<close>

theorem PointSource_init_raises_iff:
  "((\<exists>msg. fst (PointSource_init sid nm trt m loc npd hcd usd lsd rel rar)
              = Some (SourceError msg))
      \<longleftrightarrow> (usd < 0 \<or> \<not> usd < lsd \<or> (\<exists>(prob, d) \<in> set (data hcd). d < usd \<or> lsd < d)
           \<or> \<not> 0 < rar))
   \<and> (\<forall>e. fst (PointSource_init sid nm trt m loc npd hcd usd lsd rel rar) = Some e \<longrightarrow>
         snd (PointSource_init sid nm trt m loc npd hcd usd lsd rel rar)
           = Base_initialised (SeismicSource_init sid nm trt m)
         \<and> PointSource sid nm trt m loc npd hcd usd lsd rel rar = Inl (Raised e))
   \<and> (fst (PointSource_init sid nm trt m loc npd hcd usd lsd rel rar) = None \<longrightarrow>
         (\<exists>src. snd (PointSource_init sid nm trt m loc npd hcd usd lsd rel rar) = Initialised src
            \<and> PointSource sid nm trt m loc npd hcd usd lsd rel rar = Inr src))"
  by (simp add: PointSource_init_def PointSource_def Let_def list_all_depths)

theorem PointSource_init_raises_iff_witness:
  "(\<exists>msg. fst (PointSource_init ''1'' ''point'' ''Active Shallow Crust'' [(5, 1 / 10)]
              \<lparr>longitude = 0, latitude = 0, depth = 0\<rparr> \<lparr>data = [(1, example_plane)]\<rparr>
              \<lparr>data = [(1, 11)]\<rparr> 0 10 example_msr 1) = Some (SourceError msg))
   \<and> (\<exists>src. PointSource ''1'' ''point'' ''Active Shallow Crust'' [(5, 1 / 10)]
              \<lparr>longitude = 0, latitude = 0, depth = 0\<rparr> \<lparr>data = [(1, example_plane)]\<rparr>
              \<lparr>data = [(1, 10)]\<rparr> 0 10 example_msr 1 = Inr src)"
proof -
  have bad: "\<exists>(prob, d) \<in> set (data \<lparr>data = [(1 :: real, 11 :: real)]\<rparr>). d < 0 \<or> 10 < d"
    by simp
  have good: "\<not> ((0 :: real) < 0 \<or> \<not> (0 :: real) < 10
                \<or> (\<exists>(prob, d) \<in> set (data \<lparr>data = [(1 :: real, 10 :: real)]\<rparr>). d < 0 \<or> 10 < d)
                \<or> \<not> (0 :: real) < 1)"
    by simp
  from bad
    PointSource_init_raises_iff [of "''1''" "''point''" "''Active Shallow Crust''" "[(5, 1 / 10)]"
      "\<lparr>longitude = 0, latitude = 0, depth = 0\<rparr>" "\<lparr>data = [(1, example_plane)]\<rparr>"
      "\<lparr>data = [(1, 11)]\<rparr>" 0 10 example_msr 1]
  have first: "\<exists>msg. fst (PointSource_init ''1'' ''point'' ''Active Shallow Crust'' [(5, 1 / 10)]
              \<lparr>longitude = 0, latitude = 0, depth = 0\<rparr> \<lparr>data = [(1, example_plane)]\<rparr>
              \<lparr>data = [(1, 11)]\<rparr> 0 10 example_msr 1) = Some (SourceError msg)"
    by blast
  from good
    PointSource_init_raises_iff [of "''1''" "''point''" "''Active Shallow Crust''" "[(5, 1 / 10)]"
      "\<lparr>longitude = 0, latitude = 0, depth = 0\<rparr>" "\<lparr>data = [(1, example_plane)]\<rparr>"
      "\<lparr>data = [(1, 10)]\<rparr>" 0 10 example_msr 1]
  have second: "\<exists>src. PointSource ''1'' ''point'' ''Active Shallow Crust'' [(5, 1 / 10)]
              \<lparr>longitude = 0, latitude = 0, depth = 0\<rparr> \<lparr>data = [(1, example_plane)]\<rparr>
              \<lparr>data = [(1, 10)]\<rparr> 0 10 example_msr 1 = Inr src"
    by (cases "fst (PointSource_init ''1'' ''point'' ''Active Shallow Crust'' [(5, 1 / 10)]
              \<lparr>longitude = 0, latitude = 0, depth = 0\<rparr> \<lparr>data = [(1, example_plane)]\<rparr>
              \<lparr>data = [(1, 10)]\<rparr> 0 10 example_msr 1)")
       (auto simp: PointSource_init_def Let_def)
  from first second show ?thesis ..
qed

lemma example_source_constructed:
  "PointSource ''1'' ''point'' ''Active Shallow Crust'' [(5, 1 / 10), (6, 1 / 100)]
     \<lparr>longitude = 0, latitude = 0, depth = 0\<rparr> \<lparr>data = [(1, example_plane)]\<rparr>
     \<lparr>data = [(1 / 2, 1 / 2), (1 / 2, 5)]\<rparr> 0 10 example_msr 1 = Inr example_source"
  by (simp add: PointSource_def PointSource_init_def SeismicSource_init_def Let_def
        seismic_source.extend_def example_source_def)

lemma example_dims: "get_rupture_dimensions example_source 5 example_plane = Inr (2, 2)"
  by (simp add: get_rupture_dimensions_def example_source_def example_msr_def
        example_plane_def radians_def Let_def)

lemma example_premises:
  "0 < example_msr 5 (rake example_plane)" "0 < dip example_plane" "dip example_plane \<le> 90"
  by (simp_all add: example_msr_def example_plane_def)

lemma example_point_at_depth:
  "\<forall>p h v a. depth (example_point_at p h v a) = depth p + v"
  by (simp add: example_point_at_def)

lemma example_planes:
  "\<forall>(mag, rate) \<in> set [(5, 1 / 10), (6, 1 / 100 :: real)].
     \<forall>(np_prob, np) \<in> set (data \<lparr>data = [(1 :: real, example_plane)]\<rparr>).
       0 < example_msr mag (rake np) \<and> 0 < dip np \<and> dip np \<le> 90"
  by (simp add: example_msr_def example_plane_def)

section \<open>Properties of the rupture dimensions\<close>

lemma dims_ok:
  assumes A: "0 < magnitude_scaling_relationship self mag (rake np)"
    and r: "0 < rupture_aspect_ratio self"
    and d: "0 < dip np" "dip np \<le> 90"
    and l: "upper_seismogenic_depth self < lower_seismogenic_depth self"
  shows "get_rupture_dimensions self mag np =
     (let area = magnitude_scaling_relationship self mag (rake np);
          len = sqrt (area * rupture_aspect_ratio self);
          max_width = (lower_seismogenic_depth self - upper_seismogenic_depth self)
                        / sin (radians (dip np))
      in if area / len > max_width then Inr (area / max_width, max_width)
         else Inr (len, area / len))"
proof -
  define area where "area = magnitude_scaling_relationship self mag (rake np)"
  define ar where "ar = rupture_aspect_ratio self"
  define sn where "sn = sin (radians (dip np))"
  define slw where "slw = lower_seismogenic_depth self - upper_seismogenic_depth self"
  have s: "sn \<noteq> 0" using sin_radians_pos [OF d] by (simp add: sn_def)
  have p: "\<not> area * ar < 0" "sqrt (area * ar) \<noteq> 0"
    using A r by (simp_all add: area_def ar_def not_less)
  have mw: "slw / sn \<noteq> 0"
    using s l by (simp add: slw_def)
  show ?thesis
    unfolding get_rupture_dimensions_def Let_def
    unfolding area_def [symmetric] ar_def [symmetric] sn_def [symmetric] slw_def [symmetric]
    using s p mw by (simp del: real_sqrt_eq_zero_cancel_iff divide_eq_0_iff)
qed

lemma py_mod_add_left: "m \<noteq> 0 \<Longrightarrow> py_mod (py_mod x m + y) m = py_mod (x + y) m"
proof -
  assume m: "m \<noteq> 0"
  define k where "k = \<lfloor>x / m\<rfloor>"
  define j where "j = \<lfloor>(x - m * of_int k + y) / m\<rfloor>"
  define i where "i = \<lfloor>(x + y) / m\<rfloor>"
  have "(x - m * of_int k + y) / m = (x + y) / m - of_int k"
    using m by (simp add: field_simps)
  then have "j = i - k"
    unfolding j_def i_def by simp
  then have "x - m * of_int k + y - m * of_int j = x + y - m * of_int i"
    by (simp only: of_int_diff) (simp add: algebra_simps)
  then show ?thesis
    unfolding py_mod_def k_def [symmetric] j_def [symmetric] i_def [symmetric] .
qed

lemma azimuths:
  "py_mod (py_mod (s + 90) 360 + 90) 360 = py_mod (s + 180) 360"
  "py_mod (py_mod (s + 180) 360 + 90) 360 = py_mod (s + 270) 360"
  by (simp_all add: py_mod_add_left add.assoc)

lemma vshift_fits:
  assumes "2 * hheight \<le> lsd - usd"
  shows "usd \<le> hdepth + rupture_vshift usd lsd hdepth hheight - hheight"
    and "hdepth + rupture_vshift usd lsd hdepth hheight + hheight \<le> lsd"
  using assms by (auto simp: rupture_vshift_def Let_def)

lemma dims_width_le:
  assumes "get_rupture_dimensions self mag np = Inr (len, wid)"
  shows "wid \<le> (lower_seismogenic_depth self - upper_seismogenic_depth self)
                  / sin (radians (dip np))"
  using assms by (auto simp: get_rupture_dimensions_def Let_def split: if_splits)

text \<open>
  Claim C2. For a constructed point source (so the aspect ratio is positive and the
  lower seismogenic depth is below the upper one), a nodal plane with a dip in
  \<open>(0, 90]\<close> and a positive median area \<open>A\<close>, \<open>_get_rupture_dimensions\<close> returns
  the length \<open>sqrt (A * aspect_ratio)\<close> and the width \<open>A / length\<close> when that width
  does not exceed \<open>max_width\<close>, and otherwise the width \<open>max_width\<close> and the length
  \<open>A / max_width\<close>; in both cases length times width is \<open>A\<close>.
\<close>

theorem get_rupture_dimensions_area:
  assumes src: "PointSource sid nm trt m loc npd hcd usd lsd rel rar = Inr self"
    and area: "0 < rel mag (rake np)"
    and dip: "0 < dip np" "dip np \<le> 90"
  shows "\<exists>len wid. get_rupture_dimensions self mag np = Inr (len, wid) \<and>
           (let A = rel mag (rake np);
                max_width = (lsd - usd) / sin (radians (dip np))
            in (if A / sqrt (A * rar) \<le> max_width
                then len = sqrt (A * rar) \<and> wid = A / len
                else wid = max_width \<and> len = A / max_width)
               \<and> len * wid = A)"
proof -
  note f = PointSource_Inr [OF src]
  have A: "0 < magnitude_scaling_relationship self mag (rake np)"
    using area f by simp
  have r: "0 < rupture_aspect_ratio self" using f by simp
  have l: "upper_seismogenic_depth self < lower_seismogenic_depth self" using f by simp
  have s: "0 < sin (radians (dip np))" using dip by (rule sin_radians_pos)
  have sq: "0 < sqrt (rel mag (rake np) * rar)" using area f(3) by simp
  have mw: "(lsd - usd) / sin (radians (dip np)) \<noteq> 0" using s f(2) by simp
  show ?thesis
    unfolding dims_ok [OF A r dip l] Let_def f
    using sq mw area by (auto simp: not_le)
qed

theorem get_rupture_dimensions_area_witness:
  "get_rupture_dimensions example_source 5 example_plane = Inr (2, 2)"
proof -
  have a: "0 < example_msr 5 (rake example_plane)" by (simp add: example_msr_def)
  have d: "0 < dip example_plane" "dip example_plane \<le> 90" by (simp_all add: example_plane_def)
  from get_rupture_dimensions_area [OF example_source_constructed a d]
  show ?thesis
    by (auto simp: Let_def example_msr_def example_plane_def radians_def split: if_splits)
qed

section \<open>Properties of the rupture surface\<close>

lemma surface_ok:
  assumes dims: "get_rupture_dimensions self mag np = Inr (len, wid)"
    and h: "upper_seismogenic_depth self \<le> depth hypocenter"
           "depth hypocenter \<le> lower_seismogenic_depth self"
  shows "get_rupture_surface point_at self mag np hypocenter =
           Inr (spec_corners point_at np
                  (spec_rupture_center point_at np hypocenter
                     (rupture_vshift (upper_seismogenic_depth self)
                        (lower_seismogenic_depth self) (depth hypocenter)
                        (wid * sin (radians (dip np)) / 2)))
                  len wid)"
proof -
  have s: "sin (radians (dip np)) \<noteq> 0"
    using dims by (auto simp: get_rupture_dimensions_def Let_def split: if_splits)
  show ?thesis
    using s h
    by (simp add: get_rupture_surface_def dims Let_def spec_corners_def
          spec_rupture_center_def azimuths)
qed

lemma dims_width_nonneg:
  assumes A: "0 < magnitude_scaling_relationship self mag (rake np)"
    and r: "0 < rupture_aspect_ratio self"
    and d: "0 < dip np" "dip np \<le> 90"
    and l: "upper_seismogenic_depth self < lower_seismogenic_depth self"
    and dims: "get_rupture_dimensions self mag np = Inr (len, wid)"
  shows "0 < wid"
proof -
  have s: "0 < sin (radians (dip np))" using d by (rule sin_radians_pos)
  have mw: "0 < (lower_seismogenic_depth self - upper_seismogenic_depth self)
                  / sin (radians (dip np))"
    using s l by simp
  have q: "0 < magnitude_scaling_relationship self mag (rake np)
                 / sqrt (magnitude_scaling_relationship self mag (rake np)
                         * rupture_aspect_ratio self)"
    using A r by simp
  from dims show ?thesis
    unfolding dims_ok [OF A r d l] Let_def
    using mw q by (auto split: if_splits)
qed

lemma vshift_keeps_hypocenter:
  assumes "0 \<le> hheight" "usd \<le> hdepth" "hdepth \<le> lsd"
  shows "hdepth + rupture_vshift usd lsd hdepth hheight - hheight \<le> hdepth"
    and "hdepth \<le> hdepth + rupture_vshift usd lsd hdepth hheight + hheight"
  using assms by (auto simp: rupture_vshift_def Let_def)

lemma vshift_rule:
  "rupture_vshift usd lsd hdepth hheight =
     (if usd - hdepth + hheight < 0
      then (if 0 < lsd - hdepth - hheight then 0 else lsd - hdepth - hheight)
      else usd - hdepth + hheight)"
  by (simp add: rupture_vshift_def Let_def)

text \<open>
  Claim C3. For a hypocenter between the two seismogenic depths, the vertical shift
  is the one of the two-branch rule: the tentative shift \<open>upper - depth + half_height\<close>
  when that is not negative, and otherwise \<open>lower - depth - half_height\<close>, replaced by 0
  when positive; \<open>half_height\<close> is half the clamped width times the sine of the dip.
  It puts the centre of the rupture at the depth \<open>depth + shift\<close>, from which the top
  edge (half a height above) is not above the upper seismogenic depth and the bottom edge
  (half a height below) not below the lower one, and the hypocenter stays between the two
  edges. When the projection of a point adds the vertical increment to the depth, these
  are the depths of the corners of the surface that \<open>_get_rupture_surface\<close> returns.
\<close>

theorem rupture_fits_seismogenic_layer:
  assumes src: "PointSource sid nm trt m loc npd hcd usd lsd rel rar = Inr self"
    and area: "0 < rel mag (rake np)"
    and dip: "0 < dip np" "dip np \<le> 90"
    and hyp: "usd \<le> depth hypocenter" "depth hypocenter \<le> lsd"
  shows "\<exists>len wid s.
      get_rupture_dimensions self mag np = Inr (len, wid)
    \<and> get_rupture_surface point_at self mag np hypocenter = Inr s
    \<and> (let half_height = wid * sin (radians (dip np)) / 2;
            tentative = usd - depth hypocenter + half_height;
            from_bottom = lsd - depth hypocenter - half_height;
            shift = (if tentative < 0
                     then (if 0 < from_bottom then 0 else from_bottom)
                     else tentative);
            center_depth = depth hypocenter + shift
        in rupture_vshift usd lsd (depth hypocenter) half_height = shift
         \<and> usd \<le> center_depth - half_height
         \<and> center_depth + half_height \<le> lsd
         \<and> center_depth - half_height \<le> depth hypocenter
         \<and> depth hypocenter \<le> center_depth + half_height
         \<and> ((\<forall>p h v a. depth (point_at p h v a) = depth p + v) \<longrightarrow>
              depth (top_left s) = center_depth - half_height
            \<and> depth (top_right s) = center_depth - half_height
            \<and> depth (bottom_right s) = center_depth + half_height
            \<and> depth (bottom_left s) = center_depth + half_height))"
proof -
  note f = PointSource_Inr(5-13) [OF src]
  note v = PointSource_Inr(1-4) [OF src]
  have A: "0 < magnitude_scaling_relationship self mag (rake np)"
    using area by (simp add: f)
  have r: "0 < rupture_aspect_ratio self" using v(3) by (simp add: f)
  have l: "upper_seismogenic_depth self < lower_seismogenic_depth self"
    using v(2) by (simp add: f)
  have sn: "0 < sin (radians (dip np))" using dip by (rule sin_radians_pos)
  obtain len wid where dims: "get_rupture_dimensions self mag np = Inr (len, wid)"
    using dims_ok [OF A r dip l] by (auto simp: Let_def split: if_splits)
  define hh where "hh = wid * sin (radians (dip np)) / 2"
  define sh where "sh = rupture_vshift usd lsd (depth hypocenter) hh"
  have "wid \<le> (lsd - usd) / sin (radians (dip np))"
    using dims_width_le [OF dims] by (simp add: f)
  then have "wid * sin (radians (dip np)) \<le> lsd - usd"
    using sn by (simp add: pos_le_divide_eq)
  then have fit: "2 * hh \<le> lsd - usd"
    by (simp add: hh_def)
  have "0 < wid" using dims_width_nonneg [OF A r dip l dims] .
  then have hh0: "0 \<le> hh" using sn by (simp add: hh_def)
  have h': "upper_seismogenic_depth self \<le> depth hypocenter"
           "depth hypocenter \<le> lower_seismogenic_depth self"
    using hyp by (simp_all add: f)
  note surf = surface_ok [OF dims h', of point_at, unfolded f, folded hh_def sh_def]
  have depths: "depth (top_left s) = depth hypocenter + sh - hh
            \<and> depth (top_right s) = depth hypocenter + sh - hh
            \<and> depth (bottom_right s) = depth hypocenter + sh + hh
            \<and> depth (bottom_left s) = depth hypocenter + sh + hh"
    if pa: "\<forall>p h v a. depth (point_at p h v a) = depth p + v"
      and s: "s = spec_corners point_at np (spec_rupture_center point_at np hypocenter sh) len wid"
    for s
  proof -
    have c: "depth (spec_rupture_center point_at np hypocenter sh) = depth hypocenter + sh"
      by (simp add: spec_rupture_center_def pa)
    show ?thesis
      unfolding s by (simp add: spec_corners_def Let_def pa c hh_def)
  qed
  define s where
    "s = spec_corners point_at np (spec_rupture_center point_at np hypocenter sh) len wid"
  have rule: "sh = (if usd - depth hypocenter + hh < 0
                    then (if 0 < lsd - depth hypocenter - hh then 0
                          else lsd - depth hypocenter - hh)
                    else usd - depth hypocenter + hh)"
    unfolding sh_def by (rule vshift_rule)
  have main: "usd \<le> depth hypocenter + sh - hh \<and> depth hypocenter + sh + hh \<le> lsd
         \<and> depth hypocenter + sh - hh \<le> depth hypocenter
         \<and> depth hypocenter \<le> depth hypocenter + sh + hh
         \<and> ((\<forall>p h v a. depth (point_at p h v a) = depth p + v) \<longrightarrow>
              depth (top_left s) = depth hypocenter + sh - hh
            \<and> depth (top_right s) = depth hypocenter + sh - hh
            \<and> depth (bottom_right s) = depth hypocenter + sh + hh
            \<and> depth (bottom_left s) = depth hypocenter + sh + hh)"
    using vshift_fits [OF fit, of "depth hypocenter"]
      vshift_keeps_hypocenter [OF hh0 hyp] depths [OF _ s_def]
    unfolding sh_def [symmetric] by blast
  have "get_rupture_dimensions self mag np = Inr (len, wid)
    \<and> get_rupture_surface point_at self mag np hypocenter = Inr s
    \<and> (let half_height = wid * sin (radians (dip np)) / 2;
            tentative = usd - depth hypocenter + half_height;
            from_bottom = lsd - depth hypocenter - half_height;
            shift = (if tentative < 0
                     then (if 0 < from_bottom then 0 else from_bottom)
                     else tentative);
            center_depth = depth hypocenter + shift
        in rupture_vshift usd lsd (depth hypocenter) half_height = shift
         \<and> usd \<le> center_depth - half_height
         \<and> center_depth + half_height \<le> lsd
         \<and> center_depth - half_height \<le> depth hypocenter
         \<and> depth hypocenter \<le> center_depth + half_height
         \<and> ((\<forall>p h v a. depth (point_at p h v a) = depth p + v) \<longrightarrow>
              depth (top_left s) = center_depth - half_height
            \<and> depth (top_right s) = center_depth - half_height
            \<and> depth (bottom_right s) = center_depth + half_height
            \<and> depth (bottom_left s) = center_depth + half_height))"
    unfolding Let_def hh_def [symmetric] rule [symmetric]
    using dims surf [folded s_def] main sh_def by blast
  then show ?thesis by blast
qed

theorem rupture_fits_seismogenic_layer_witness:
  "(\<exists>s. get_rupture_surface example_point_at example_source 5 example_plane
          \<lparr>longitude = 0, latitude = 0, depth = 1 / 2\<rparr> = Inr s
       \<and> rupture_vshift 0 10 (1 / 2) 1 = 1 / 2
       \<and> depth (top_left s) = 0 \<and> depth (top_right s) = 0
       \<and> depth (bottom_right s) = 2 \<and> depth (bottom_left s) = 2)
   \<and> (\<exists>s. get_rupture_surface example_point_at example_source 5 example_plane
          \<lparr>longitude = 0, latitude = 0, depth = 5\<rparr> = Inr s
       \<and> rupture_vshift 0 10 5 1 = 0
       \<and> depth (top_left s) = 4 \<and> depth (top_right s) = 4
       \<and> depth (bottom_right s) = 6 \<and> depth (bottom_left s) = 6)
   \<and> (\<exists>s. get_rupture_surface example_point_at example_source 5 example_plane
          \<lparr>longitude = 0, latitude = 0, depth = 19 / 2\<rparr> = Inr s
       \<and> rupture_vshift 0 10 (19 / 2) 1 = - (1 / 2)
       \<and> depth (top_left s) = 8 \<and> depth (top_right s) = 8
       \<and> depth (bottom_right s) = 10 \<and> depth (bottom_left s) = 10)"
proof -
  have gen: "\<exists>s. get_rupture_surface example_point_at example_source 5 example_plane
                   \<lparr>longitude = 0, latitude = 0, depth = d\<rparr> = Inr s
       \<and> rupture_vshift 0 10 d 1 = sh
       \<and> depth (top_left s) = d + sh - 1 \<and> depth (top_right s) = d + sh - 1
       \<and> depth (bottom_right s) = d + sh + 1 \<and> depth (bottom_left s) = d + sh + 1"
    if d: "0 \<le> d" "d \<le> 10"
      and sh: "sh = (if 0 - d + 1 < 0 then (if 0 < 10 - d - 1 then 0 else 10 - d - 1)
                     else 0 - d + 1)"
    for d sh :: real
  proof -
    have h: "(0 :: real) \<le> depth \<lparr>longitude = 0, latitude = 0, depth = d\<rparr>"
            "depth \<lparr>longitude = 0, latitude = 0, depth = d\<rparr> \<le> (10 :: real)"
      using d by simp_all
    from rupture_fits_seismogenic_layer [OF example_source_constructed example_premises h,
           of example_point_at]
    obtain len wid s where
      dims: "get_rupture_dimensions example_source 5 example_plane = Inr (len, wid)"
      and surf: "get_rupture_surface example_point_at example_source 5 example_plane
                   \<lparr>longitude = 0, latitude = 0, depth = d\<rparr> = Inr s"
      and fits: "let half_height = wid * sin (radians (dip example_plane)) / 2;
            tentative = 0 - depth \<lparr>longitude = 0, latitude = 0, depth = d\<rparr> + half_height;
            from_bottom = 10 - depth \<lparr>longitude = 0, latitude = 0, depth = d\<rparr> - half_height;
            shift = (if tentative < 0
                     then (if 0 < from_bottom then 0 else from_bottom)
                     else tentative);
            center_depth = depth \<lparr>longitude = 0, latitude = 0, depth = d\<rparr> + shift
        in rupture_vshift 0 10 (depth \<lparr>longitude = 0, latitude = 0, depth = d\<rparr>) half_height
             = shift
         \<and> 0 \<le> center_depth - half_height
         \<and> center_depth + half_height \<le> 10
         \<and> center_depth - half_height \<le> depth \<lparr>longitude = 0, latitude = 0, depth = d\<rparr>
         \<and> depth \<lparr>longitude = 0, latitude = 0, depth = d\<rparr> \<le> center_depth + half_height
         \<and> ((\<forall>p h v a. depth (example_point_at p h v a) = depth p + v) \<longrightarrow>
              depth (top_left s) = center_depth - half_height
            \<and> depth (top_right s) = center_depth - half_height
            \<and> depth (bottom_right s) = center_depth + half_height
            \<and> depth (bottom_left s) = center_depth + half_height)"
      by blast
    from dims have wid: "wid = 2" by (simp add: example_dims)
    have hh: "wid * sin (radians (dip example_plane)) / 2 = 1"
      by (simp add: wid example_plane_def radians_def)
    from fits example_point_at_depth
    have "rupture_vshift 0 10 d 1 = sh
       \<and> depth (top_left s) = d + sh - 1 \<and> depth (top_right s) = d + sh - 1
       \<and> depth (bottom_right s) = d + sh + 1 \<and> depth (bottom_left s) = d + sh + 1"
      unfolding Let_def hh sh by simp
    with surf show ?thesis by blast
  qed
  have a: "(0 :: real) \<le> 1 / 2" "(1 / 2 :: real) \<le> 10"
          "(1 / 2 :: real) = (if 0 - 1 / 2 + 1 < (0 :: real)
                      then (if (0 :: real) < 10 - 1 / 2 - 1 then 0 else 10 - 1 / 2 - 1)
                      else 0 - 1 / 2 + 1)"
    by simp_all
  have b: "(0 :: real) \<le> 5" "(5 :: real) \<le> 10"
          "(0 :: real) = (if 0 - 5 + 1 < (0 :: real)
                      then (if (0 :: real) < 10 - 5 - 1 then 0 else 10 - 5 - 1)
                      else 0 - 5 + 1)"
    by simp_all
  have c: "(0 :: real) \<le> 19 / 2" "(19 / 2 :: real) \<le> 10"
          "(- (1 / 2) :: real) = (if 0 - 19 / 2 + 1 < (0 :: real)
                      then (if (0 :: real) < 10 - 19 / 2 - 1 then 0 else 10 - 19 / 2 - 1)
                      else 0 - 19 / 2 + 1)"
    by simp_all
  from gen [OF a] gen [OF b] gen [OF c] show ?thesis
    by simp
qed

text \<open>
  Claim C6. \<open>_get_rupture_surface\<close> returns the surface whose four corners are
  reached by the steps of the specification from the (possibly shifted) centre: half the
  length along the strike, half the projected width and height down dip, the projected
  width up dip with the height negated, and the length against the strike from the right
  top and the right bottom corner; the corners are stored in the order left top, right
  top, right bottom, left bottom.
\<close>

theorem rupture_surface_corners:
  assumes src: "PointSource sid nm trt m loc npd hcd usd lsd rel rar = Inr self"
    and area: "0 < rel mag (rake np)"
    and dip: "0 < dip np" "dip np \<le> 90"
    and hyp: "usd \<le> depth hypocenter" "depth hypocenter \<le> lsd"
  shows "\<exists>len wid.
      get_rupture_dimensions self mag np = Inr (len, wid)
    \<and> get_rupture_surface point_at self mag np hypocenter =
        Inr (spec_corners point_at np
               (spec_rupture_center point_at np hypocenter
                  (rupture_vshift usd lsd (depth hypocenter) (wid * sin (radians (dip np)) / 2)))
               len wid)"
proof -
  note f = PointSource_Inr(5-13) [OF src]
  note v = PointSource_Inr(1-4) [OF src]
  have A: "0 < magnitude_scaling_relationship self mag (rake np)"
    using area by (simp add: f)
  have r: "0 < rupture_aspect_ratio self" using v(3) by (simp add: f)
  have l: "upper_seismogenic_depth self < lower_seismogenic_depth self"
    using v(2) by (simp add: f)
  obtain len wid where dims: "get_rupture_dimensions self mag np = Inr (len, wid)"
    using dims_ok [OF A r dip l] by (auto simp: Let_def split: if_splits)
  have h': "upper_seismogenic_depth self \<le> depth hypocenter"
           "depth hypocenter \<le> lower_seismogenic_depth self"
    using hyp by (simp_all add: f)
  from dims surface_ok [OF dims h', of point_at, unfolded f] show ?thesis
    by blast
qed

theorem rupture_surface_corners_witness:
  "get_rupture_surface example_point_at example_source 5 example_plane
          \<lparr>longitude = 0, latitude = 0, depth = 5\<rparr>
     = Inr \<lparr>top_left = \<lparr>longitude = 0, latitude = - 1, depth = 4\<rparr>,
            top_right = \<lparr>longitude = 0, latitude = 1, depth = 4\<rparr>,
            bottom_right = \<lparr>longitude = 0, latitude = 1, depth = 6\<rparr>,
            bottom_left = \<lparr>longitude = 0, latitude = - 1, depth = 6\<rparr>\<rparr>"
proof -
  have h: "(0 :: real) \<le> depth \<lparr>longitude = 0, latitude = 0, depth = 5\<rparr>"
          "depth \<lparr>longitude = 0, latitude = 0, depth = 5\<rparr> \<le> (10 :: real)"
    by simp_all
  from rupture_surface_corners [OF example_source_constructed example_premises h,
         of example_point_at]
  obtain len wid where
    dims: "get_rupture_dimensions example_source 5 example_plane = Inr (len, wid)"
    and surf: "get_rupture_surface example_point_at example_source 5 example_plane
                 \<lparr>longitude = 0, latitude = 0, depth = 5\<rparr> =
        Inr (spec_corners example_point_at example_plane
               (spec_rupture_center example_point_at example_plane
                  \<lparr>longitude = 0, latitude = 0, depth = 5\<rparr>
                  (rupture_vshift 0 10 (depth \<lparr>longitude = 0, latitude = 0, depth = 5\<rparr>)
                     (wid * sin (radians (dip example_plane)) / 2)))
               len wid)"
    by blast
  from dims have lw: "len = 2" "wid = 2" by (simp_all add: example_dims)
  have m: "py_mod 90 360 = 90" "py_mod 180 360 = 180" "py_mod 270 360 = 270"
    by (simp_all add: py_mod_def)
  have t: "sin (270 * pi / 180) = 0 - 1" "cos (270 * pi / 180) = 0"
    using sin_add [of pi "pi / 2"] cos_add [of pi "pi / 2"]
    by (simp_all add: field_simps)
  show ?thesis
    unfolding surf lw
    by (simp add: spec_corners_def spec_rupture_center_def rupture_vshift_def Let_def
          example_plane_def example_point_at_def radians_def m t)
qed

section \<open>Properties of the enumeration\<close>

lemma remaining_start: "remaining body nps hcs ms nps hcs = full_mag body nps hcs ms"
  by (cases ms; cases nps) (simp_all add: full_mag_def full_np_def)

lemma remaining_next_np:
  "remaining body nps hcs (m # ms) ns hcs = full_np body hcs m ns @ full_mag body nps hcs ms"
  by (cases ns) (simp_all add: full_np_def)

lemma resume_body_stop:
  "remaining body nps hcs ms ns hs = [] \<Longrightarrow>
     resume_body body nps hcs ms ns hs = (StopIteration, Finished)"
  by (induction body nps hcs ms ns hs rule: resume_body.induct)
     (simp_all add: remaining_start remaining_next_np)

lemma resume_body_raise:
  "remaining body nps hcs ms ns hs = Inl e # rest \<Longrightarrow>
     resume_body body nps hcs ms ns hs = (Raise e, Finished)"
  by (induction body nps hcs ms ns hs rule: resume_body.induct)
     (simp_all add: remaining_start remaining_next_np)

lemma resume_body_yield:
  "remaining body nps hcs ms ns hs = Inr r # rest \<Longrightarrow>
     \<exists>ms' ns' hs'. resume_body body nps hcs ms ns hs = (Yield r, Suspended ms' ns' hs')
        \<and> remaining body nps hcs ms' ns' hs' = rest"
  by (induction body nps hcs ms ns hs rule: resume_body.induct)
     (auto simp add: remaining_start remaining_next_np)

lemma gen_take_finished:
  "gen_state g = Finished \<Longrightarrow> gen_take k point_at g = replicate k StopIteration"
  by (induction k) (simp_all add: gen_next_def Let_def)

lemma gen_take_suspended:
  "gen_take k point_at
     \<lparr>gen_self = self, gen_temporal_occurrence_model = tom, gen_location = loc,
      gen_rate_scaling_factor = rsf, gen_state = Suspended ms ns hs\<rparr>
   = trace (remaining (loop_body point_at self tom loc rsf)
              (data (nodal_plane_distribution self)) (data (hypocenter_distribution self))
              ms ns hs) k"
proof (induction k arbitrary: ms ns hs)
  case 0
  show ?case by simp
next
  case (Suc k)
  let ?body = "loop_body point_at self tom loc rsf"
  let ?nps = "data (nodal_plane_distribution self)"
  let ?hcs = "data (hypocenter_distribution self)"
  show ?case
  proof (cases "remaining ?body ?nps ?hcs ms ns hs")
    case Nil
    from resume_body_stop [OF Nil] show ?thesis
      by (simp add: Nil gen_next_def Let_def gen_take_finished)
  next
    case (Cons x rest)
    show ?thesis
    proof (cases x)
      case (Inl e)
      from resume_body_raise [OF Cons [unfolded Inl]] show ?thesis
        by (simp add: Cons Inl gen_next_def Let_def gen_take_finished)
    next
      case (Inr r)
      from resume_body_yield [OF Cons [unfolded Inr]]
      obtain ms' ns' hs' where
        st: "resume_body ?body ?nps ?hcs ms ns hs = (Yield r, Suspended ms' ns' hs')"
        and rest: "remaining ?body ?nps ?hcs ms' ns' hs' = rest"
        by blast
      show ?thesis
        by (simp add: Cons Inr gen_next_def Let_def st Suc.IH rest)
    qed
  qed
qed

lemma gen_take_created:
  assumes "0 < rsf"
  shows "gen_take k point_at
     \<lparr>gen_self = self, gen_temporal_occurrence_model = tom, gen_location = loc,
      gen_rate_scaling_factor = rsf, gen_state = Created\<rparr>
   = trace (full_mag (loop_body point_at self tom loc rsf)
              (data (nodal_plane_distribution self)) (data (hypocenter_distribution self))
              (mfd self)) k"
proof (cases k)
  case 0
  then show ?thesis by simp
next
  case (Suc j)
  let ?body = "loop_body point_at self tom loc rsf"
  let ?nps = "data (nodal_plane_distribution self)"
  let ?hcs = "data (hypocenter_distribution self)"
  have start: "remaining ?body ?nps ?hcs (mfd self) ?nps ?hcs = full_mag ?body ?nps ?hcs (mfd self)"
    by (rule remaining_start)
  show ?thesis
  proof (cases "full_mag ?body ?nps ?hcs (mfd self)")
    case Nil
    from resume_body_stop [OF start [unfolded Nil]] show ?thesis
      using assms by (simp add: Suc Nil gen_next_def Let_def gen_take_finished)
  next
    case (Cons x rest)
    show ?thesis
    proof (cases x)
      case (Inl e)
      from resume_body_raise [OF start [unfolded Cons Inl]] show ?thesis
        using assms by (simp add: Suc Cons Inl gen_next_def Let_def gen_take_finished)
    next
      case (Inr r)
      from resume_body_yield [OF start [unfolded Cons Inr]]
      obtain ms' ns' hs' where
        st: "resume_body ?body ?nps ?hcs (mfd self) ?nps ?hcs = (Yield r, Suspended ms' ns' hs')"
        and rest: "remaining ?body ?nps ?hcs ms' ns' hs' = rest"
        by blast
      show ?thesis
        using assms
        by (simp add: Suc Cons Inr gen_next_def Let_def st gen_take_suspended rest)
    qed
  qed
qed


lemma full_mag_cong:
  assumes "\<And>m n h. m \<in> set ms \<Longrightarrow> n \<in> set nps \<Longrightarrow> h \<in> set hcs \<Longrightarrow> f m n h = g m n h"
  shows "full_mag f nps hcs ms = full_mag g nps hcs ms"
  unfolding full_mag_def full_np_def
  by (intro arg_cong [where f = concat] map_cong refl) (simp add: assms)

lemma map_full_mag:
  "map f (full_mag body nps hcs ms) = full_mag (\<lambda>m n h. f (body m n h)) nps hcs ms"
  by (simp add: full_mag_def full_np_def map_concat comp_def)

lemma set_full_mag:
  "set (full_mag body nps hcs ms) = {body m n h | m n h. m \<in> set ms \<and> n \<in> set nps \<and> h \<in> set hcs}"
  by (auto simp: full_mag_def full_np_def)

lemma length_full_np: "length (full_np body hcs m ns) = length ns * length hcs"
  by (induction ns) (simp_all add: full_np_def)

lemma length_full_mag:
  "length (full_mag body nps hcs ms) = length ms * length nps * length hcs"
  by (induction ms) (simp_all add: full_mag_def length_full_np algebra_simps)

lemma trace_all_Inr: "trace (map Inr rs) (Suc (length rs)) = map Yield rs @ [StopIteration]"
  by (induction rs) simp_all

lemma trace_Yield: "Yield r \<in> set (trace xs k) \<Longrightarrow> Inr r \<in> set xs"
  by (induction xs k rule: trace.induct) auto

lemma trace_Raise: "Raise e \<in> set (trace xs k) \<Longrightarrow> Inl e \<in> set xs"
  by (induction xs k rule: trace.induct) auto

lemma dims_not_assertion: "get_rupture_dimensions self mag np \<noteq> Inl AssertionError"
  by (simp add: get_rupture_dimensions_def Let_def)

lemma surface_assertion:
  "get_rupture_surface point_at self mag np hypocenter = Inl AssertionError \<longleftrightarrow>
     \<not> (upper_seismogenic_depth self \<le> depth hypocenter
        \<and> depth hypocenter \<le> lower_seismogenic_depth self)"
  using dims_not_assertion [of self mag np]
  by (auto simp: get_rupture_surface_def Let_def split: sum.splits prod.splits)

lemma loop_body_assertion:
  "loop_body point_at self tom loc rsf m n h = Inl AssertionError \<longleftrightarrow>
     \<not> (upper_seismogenic_depth self \<le> snd h \<and> snd h \<le> lower_seismogenic_depth self)"
  using surface_assertion [of point_at self "fst m" "snd n"
          "\<lparr>longitude = longitude loc, latitude = latitude loc, depth = snd h\<rparr>"]
  by (auto simp: loop_body_def Let_def split: sum.splits prod.splits)

lemma loop_body_Inr:
  assumes "loop_body point_at self tom loc rsf m n h = Inr r"
  shows "rup_mag r = fst m" "rup_nodal_plane r = snd n"
    "rup_hypocenter r = \<lparr>longitude = longitude loc, latitude = latitude loc, depth = snd h\<rparr>"
    "rup_occurrence_rate r = snd m * fst n * fst h * rsf"
    "rup_tectonic_region_type r = tectonic_region_type self"
    "rup_temporal_occurrence_model r = tom"
    "get_rupture_surface point_at self (rup_mag r) (rup_nodal_plane r) (rup_hypocenter r)
       = Inr (rup_surface r)"
  using assms
  by (auto simp: loop_body_def Let_def py_float_def split: sum.splits prod.splits)

lemma loop_body_succeeds:
  assumes A: "0 < magnitude_scaling_relationship self (fst m) (rake (snd n))"
    and r: "0 < rupture_aspect_ratio self"
    and d: "0 < dip (snd n)" "dip (snd n) \<le> 90"
    and l: "upper_seismogenic_depth self < lower_seismogenic_depth self"
    and h: "upper_seismogenic_depth self \<le> snd h" "snd h \<le> lower_seismogenic_depth self"
  shows "\<exists>r. loop_body point_at self tom loc rsf m n h = Inr r"
proof -
  obtain len wid where dims: "get_rupture_dimensions self (fst m) (snd n) = Inr (len, wid)"
    using dims_ok [OF A r d l] by (auto simp: Let_def split: if_splits)
  have "\<exists>s. get_rupture_surface point_at self (fst m) (snd n)
          \<lparr>longitude = longitude loc, latitude = latitude loc, depth = snd h\<rparr> = Inr s"
    using surface_ok [OF dims, of "\<lparr>longitude = longitude loc, latitude = latitude loc, depth = snd h\<rparr>"]
      h by simp
  then show ?thesis
    by (auto simp: loop_body_def Let_def split: prod.splits)
qed

text \<open>
  Claim C1. For a constructed point source whose magnitudes and nodal planes give
  positive areas and dips in \<open>(0, 90]\<close>, and a positive rate scaling factor, the
  generator yields one rupture for each combination of an MFD pair, a nodal plane and a
  hypocenter depth, magnitudes outermost and depths innermost, and then stops. Each
  rupture has the rate \<open>mag_rate * np_prob * hc_prob * rate_scaling_factor\<close>, the
  hypocenter at the longitude and latitude of the location and the depth of the PMF, and
  the surface built for its magnitude, nodal plane and hypocenter. \<open>iter_ruptures\<close> is
  the same call at the source's location with the factor 1.
\<close>

theorem iter_ruptures_cross_product:
  assumes src: "PointSource sid nm trt m loc0 npd hcd usd lsd rel rar = Inr self"
    and planes: "\<forall>(mag, rate) \<in> set m. \<forall>(np_prob, np) \<in> set (data npd).
                   0 < rel mag (rake np) \<and> 0 < dip np \<and> dip np \<le> 90"
    and rsf: "0 < rate_scaling_factor"
  shows "\<exists>g rs.
      iter_ruptures_at_location self tom loc rate_scaling_factor = Inr g
    \<and> gen_take (length m * length (data npd) * length (data hcd) + 1) point_at g
        = map Yield rs @ [StopIteration]
    \<and> map (\<lambda>r. (rup_mag r, rup_nodal_plane r, rup_hypocenter r, rup_occurrence_rate r)) rs
        = [(mag, np, \<lparr>longitude = longitude loc, latitude = latitude loc, depth = hc_depth\<rparr>,
            mag_rate * np_prob * hc_prob * rate_scaling_factor).
           (mag, mag_rate) \<leftarrow> m, (np_prob, np) \<leftarrow> data npd, (hc_prob, hc_depth) \<leftarrow> data hcd]
    \<and> (\<forall>r \<in> set rs.
          get_rupture_surface point_at self (rup_mag r) (rup_nodal_plane r) (rup_hypocenter r)
            = Inr (rup_surface r)
          \<and> rup_tectonic_region_type r = trt
          \<and> rup_temporal_occurrence_model r = tom)
    \<and> iter_ruptures self tom = iter_ruptures_at_location self tom loc0 1"
proof -
  note f = PointSource_Inr(5-13) [OF src]
  note v = PointSource_Inr(1-4) [OF src]
  let ?body = "loop_body point_at self tom loc rate_scaling_factor"
  let ?nps = "data npd"
  let ?hcs = "data hcd"
  let ?g = "\<lparr>gen_self = self, gen_temporal_occurrence_model = tom, gen_location = loc,
             gen_rate_scaling_factor = rate_scaling_factor, gen_state = Created\<rparr>"
  let ?rs = "full_mag (\<lambda>m n h. projr (?body m n h)) ?nps ?hcs m"
  have ok: "\<exists>r. ?body a n h = Inr r"
    if "a \<in> set m" "n \<in> set ?nps" "h \<in> set ?hcs" for a n h
  proof (rule loop_body_succeeds)
    from planes that(1,2)
    have p: "0 < rel (fst a) (rake (snd n)) \<and> 0 < dip (snd n) \<and> dip (snd n) \<le> 90"
      by (cases a; cases n) auto
    from p show "0 < magnitude_scaling_relationship self (fst a) (rake (snd n))"
      by (simp add: f)
    from p show "0 < dip (snd n)" "dip (snd n) \<le> 90" by simp_all
    show "0 < rupture_aspect_ratio self" using v(3) by (simp add: f)
    show "upper_seismogenic_depth self < lower_seismogenic_depth self" using v(2) by (simp add: f)
    from v(4) that(3) have "usd \<le> snd h \<and> snd h \<le> lsd"
      by (cases h) auto
    then show "upper_seismogenic_depth self \<le> snd h" "snd h \<le> lower_seismogenic_depth self"
      by (simp_all add: f)
  qed
  have body: "?body a n h = Inr (projr (?body a n h))"
    if "a \<in> set m" "n \<in> set ?nps" "h \<in> set ?hcs" for a n h
    using ok [OF that] by auto
  have all: "full_mag ?body ?nps ?hcs m = map Inr ?rs"
    unfolding map_full_mag by (rule full_mag_cong) (rule body)
  have len: "length ?rs = length m * length ?nps * length ?hcs"
    by (rule length_full_mag)
  have take: "gen_take (length m * length ?nps * length ?hcs + 1) point_at ?g
                = map Yield ?rs @ [StopIteration]"
    unfolding gen_take_created [OF rsf] by (simp add: f all len [symmetric] trace_all_Inr del: trace.simps)
  have fields: "map (\<lambda>r. (rup_mag r, rup_nodal_plane r, rup_hypocenter r, rup_occurrence_rate r)) ?rs
        = [(mag, np, \<lparr>longitude = longitude loc, latitude = latitude loc, depth = hc_depth\<rparr>,
            mag_rate * np_prob * hc_prob * rate_scaling_factor).
           (mag, mag_rate) \<leftarrow> m, (np_prob, np) \<leftarrow> data npd, (hc_prob, hc_depth) \<leftarrow> data hcd]"
    (is "_ = ?rhs")
  proof -
    have "?rhs = full_mag (\<lambda>a n h. (fst a, snd n,
                   \<lparr>longitude = longitude loc, latitude = latitude loc, depth = snd h\<rparr>,
                   snd a * fst n * fst h * rate_scaling_factor)) ?nps ?hcs m"
      by (simp add: full_mag_def full_np_def split_def)
    also have "\<dots> = map (\<lambda>r. (rup_mag r, rup_nodal_plane r, rup_hypocenter r,
                         rup_occurrence_rate r)) ?rs"
      unfolding map_full_mag
      by (rule full_mag_cong) (simp add: loop_body_Inr [OF body])
    finally show ?thesis by simp
  qed
  have each: "\<forall>r \<in> set ?rs.
          get_rupture_surface point_at self (rup_mag r) (rup_nodal_plane r) (rup_hypocenter r)
            = Inr (rup_surface r)
          \<and> rup_tectonic_region_type r = trt
          \<and> rup_temporal_occurrence_model r = tom"
  proof
    fix r assume "r \<in> set ?rs"
    then obtain a n h where r: "r = projr (?body a n h)"
      and mem: "a \<in> set m" "n \<in> set ?nps" "h \<in> set ?hcs"
      by (auto simp: set_full_mag)
    from body [OF mem] have b: "?body a n h = Inr r" by (simp add: r)
    from loop_body_Inr(5,6,7) [OF b] show "get_rupture_surface point_at self (rup_mag r) (rup_nodal_plane r) (rup_hypocenter r)
            = Inr (rup_surface r)
          \<and> rup_tectonic_region_type r = trt
          \<and> rup_temporal_occurrence_model r = tom"
      by (simp add: f)
  qed
  have call: "iter_ruptures_at_location self tom loc rate_scaling_factor = Inr ?g"
    by (simp add: iter_ruptures_at_location_def)
  have plain: "iter_ruptures self tom = iter_ruptures_at_location self tom loc0 1"
    by (simp add: iter_ruptures_def f)
  from call take fields each plain show ?thesis by blast
qed
theorem iter_ruptures_cross_product_witness:
  "\<exists>g rs. iter_ruptures example_source () = Inr g
     \<and> gen_take 5 example_point_at g = map Yield rs @ [StopIteration]
     \<and> map rup_mag rs = [5, 5, 6, 6]
     \<and> map (\<lambda>r. depth (rup_hypocenter r)) rs = [1 / 2, 5, 1 / 2, 5]
     \<and> map rup_occurrence_rate rs = [1 / 20, 1 / 20, 1 / 200, 1 / 200]"
proof -
  have one: "(0 :: real) < 1" by simp
  from iter_ruptures_cross_product [OF example_source_constructed example_planes one,
         of "()" "\<lparr>longitude = 0, latitude = 0, depth = 0\<rparr>" example_point_at]
  obtain g rs where
    call: "iter_ruptures_at_location example_source ()
             \<lparr>longitude = 0, latitude = 0, depth = 0\<rparr> 1 = Inr g"
    and take: "gen_take (length [(5 :: real, 1 / 10 :: real), (6, 1 / 100)]
                   * length (data \<lparr>data = [(1 :: real, example_plane)]\<rparr>)
                   * length (data \<lparr>data = [(1 / 2, 1 / 2), (1 / 2, 5 :: real)]\<rparr>) + 1)
                 example_point_at g = map Yield rs @ [StopIteration]"
    and fields: "map (\<lambda>r. (rup_mag r, rup_nodal_plane r, rup_hypocenter r, rup_occurrence_rate r)) rs
        = [(mag, np, \<lparr>longitude = longitude \<lparr>longitude = 0, latitude = 0, depth = 0\<rparr>,
                      latitude = latitude \<lparr>longitude = 0, latitude = 0, depth = 0\<rparr>,
                      depth = hc_depth\<rparr>,
            mag_rate * np_prob * hc_prob * 1).
           (mag, mag_rate) \<leftarrow> [(5, 1 / 10), (6, 1 / 100)],
           (np_prob, np) \<leftarrow> data \<lparr>data = [(1, example_plane)]\<rparr>,
           (hc_prob, hc_depth) \<leftarrow> data \<lparr>data = [(1 / 2, 1 / 2), (1 / 2, 5)]\<rparr>]"
    and plain: "iter_ruptures example_source ()
                  = iter_ruptures_at_location example_source ()
                      \<lparr>longitude = 0, latitude = 0, depth = 0\<rparr> 1"
    by blast
  have "map rup_mag rs
          = map fst (map (\<lambda>r. (rup_mag r, rup_nodal_plane r, rup_hypocenter r,
                                rup_occurrence_rate r)) rs)"
    by (simp add: comp_def)
  then have mags: "map rup_mag rs = [5, 5, 6, 6]"
    unfolding fields by simp
  have "map (\<lambda>r. depth (rup_hypocenter r)) rs
          = map (\<lambda>t. depth (fst (snd (snd t))))
              (map (\<lambda>r. (rup_mag r, rup_nodal_plane r, rup_hypocenter r,
                          rup_occurrence_rate r)) rs)"
    by (simp add: comp_def)
  then have depths: "map (\<lambda>r. depth (rup_hypocenter r)) rs = [1 / 2, 5, 1 / 2, 5]"
    unfolding fields by simp
  have "map rup_occurrence_rate rs
          = map (\<lambda>t. snd (snd (snd t)))
              (map (\<lambda>r. (rup_mag r, rup_nodal_plane r, rup_hypocenter r,
                          rup_occurrence_rate r)) rs)"
    by (simp add: comp_def)
  then have rates: "map rup_occurrence_rate rs = [1 / 20, 1 / 20, 1 / 200, 1 / 200]"
    unfolding fields by simp
  from take have take5: "gen_take 5 example_point_at g = map Yield rs @ [StopIteration]"
    by (simp del: gen_take.simps add: eval_nat_numeral)
  from call plain take5 mags depths rates show ?thesis by auto
qed

text \<open>
  Claim C8. The ruptures that \<open>iter_ruptures\<close> enumerates for a constructed point
  source have their hypocenter between the two seismogenic depths, and no call of
  \<open>next\<close> ends in the \<open>AssertionError\<close> of \<open>_get_rupture_surface\<close> (or of the rate
  scaling factor).
\<close>

theorem enumeration_never_fails_assertion:
  assumes src: "PointSource sid nm trt m loc npd hcd usd lsd rel rar = Inr self"
  shows "\<exists>g. iter_ruptures self tom = Inr g
    \<and> (\<forall>k. Raise AssertionError \<notin> set (gen_take k point_at g))
    \<and> (\<forall>k r. Yield r \<in> set (gen_take k point_at g) \<longrightarrow>
          usd \<le> depth (rup_hypocenter r) \<and> depth (rup_hypocenter r) \<le> lsd)"
proof -
  note f = PointSource_Inr(5-13) [OF src]
  note v = PointSource_Inr(1-4) [OF src]
  let ?body = "loop_body point_at self tom loc 1"
  let ?g = "\<lparr>gen_self = self, gen_temporal_occurrence_model = tom, gen_location = loc,
             gen_rate_scaling_factor = 1, gen_state = Created\<rparr>"
  have call: "iter_ruptures self tom = Inr ?g"
    by (simp add: iter_ruptures_def iter_ruptures_at_location_def f)
  have take: "gen_take k point_at ?g = trace (full_mag ?body (data npd) (data hcd) m) k" for k
    using gen_take_created [of 1 k point_at self tom loc] by (simp add: f)
  have depth: "usd \<le> snd h \<and> snd h \<le> lsd" if "h \<in> set (data hcd)" for h
    using v(4) that by (cases h) auto
  have no_assert: "Raise AssertionError \<notin> set (gen_take k point_at ?g)" for k
  proof
    assume "Raise AssertionError \<in> set (gen_take k point_at ?g)"
    then have "Inl AssertionError \<in> set (full_mag ?body (data npd) (data hcd) m)"
      unfolding take by (rule trace_Raise)
    then obtain a n h where "h \<in> set (data hcd)" "?body a n h = Inl AssertionError"
      by (auto simp: set_full_mag)
    with depth [of h] show False
      by (simp add: loop_body_assertion f)
  qed
  have yields: "usd \<le> depth (rup_hypocenter r) \<and> depth (rup_hypocenter r) \<le> lsd"
    if "Yield r \<in> set (gen_take k point_at ?g)" for k r
  proof -
    from that have "Inr r \<in> set (full_mag ?body (data npd) (data hcd) m)"
      unfolding take by (rule trace_Yield)
    then obtain a n h where h: "h \<in> set (data hcd)" and b: "?body a n h = Inr r"
      by (auto simp: set_full_mag)
    from depth [OF h] loop_body_Inr(3) [OF b] show ?thesis by simp
  qed
  from call no_assert yields show ?thesis by blast
qed

theorem enumeration_never_fails_assertion_witness:
  "\<exists>g. iter_ruptures example_source () = Inr g
     \<and> Raise AssertionError \<notin> set (gen_take 5 example_point_at g)
     \<and> (\<forall>r. Yield r \<in> set (gen_take 5 example_point_at g) \<longrightarrow>
           0 \<le> depth (rup_hypocenter r) \<and> depth (rup_hypocenter r) \<le> 10)"
  using enumeration_never_fails_assertion [OF example_source_constructed,
          of "()" example_point_at]
  by blast


section \<open>Properties of the azimuth\<close>

lemma py_mod_range: "0 < m \<Longrightarrow> 0 \<le> py_mod x m \<and> py_mod x m < m"
proof -
  assume m: "0 < m"
  define k :: real where "k = of_int \<lfloor>x / m\<rfloor>"
  have "k \<le> x / m" "x / m < k + 1"
    unfolding k_def by linarith+
  then have "k * m \<le> x" "x < (k + 1) * m"
    using m by (simp_all add: pos_le_divide_eq pos_divide_less_eq)
  then show ?thesis
    unfolding py_mod_def k_def [symmetric] by (simp add: algebra_simps)
qed

lemma py_mod_small: "0 \<le> x \<Longrightarrow> x < m \<Longrightarrow> py_mod x m = x"
proof -
  assume "0 \<le> x" "x < m"
  then have "\<lfloor>x / m\<rfloor> = 0"
    by (simp add: floor_eq_iff)
  then show ?thesis by (simp add: py_mod_def)
qed

lemma py_mod_neg: "0 < x \<Longrightarrow> x \<le> m \<Longrightarrow> py_mod (- x) m = m - x"
proof -
  assume "0 < x" "x \<le> m"
  then have "\<lfloor>- x / m\<rfloor> = - 1"
    by (simp add: floor_eq_iff field_simps)
  then show ?thesis by (simp add: py_mod_def)
qed

lemma sin_radians_pos': "0 < d \<Longrightarrow> d < 180 \<Longrightarrow> 0 < sin (radians d)"
  by (rule sin_gt_zero) (auto simp: radians_def field_simps)

lemma radians_diff: "radians a - radians b = radians (a - b)"
  by (simp add: radians_def field_simps)

lemma azimuth_north:
  assumes "0 < lat2 - lat1" "lat2 - lat1 < 180"
  shows "azimuth lon lat1 lon lat2 = 0"
proof -
  have "cos (radians lat1) * sin (radians lat2) - sin (radians lat1) * cos (radians lat2)
          = sin (radians (lat2 - lat1))"
    by (simp add: radians_diff [symmetric] sin_diff)
  moreover have "0 < sin (radians (lat2 - lat1))"
    using assms by (rule sin_radians_pos')
  ultimately show ?thesis
    by (simp add: azimuth_def Let_def atan2_def degrees_def py_mod_def)
qed

lemma azimuth_south:
  assumes "0 < lat1 - lat2" "lat1 - lat2 < 180"
  shows "azimuth lon lat1 lon lat2 = 180"
proof -
  have "cos (radians lat1) * sin (radians lat2) - sin (radians lat1) * cos (radians lat2)
          = - sin (radians (lat1 - lat2))"
    by (simp add: radians_diff [symmetric] sin_diff)
  moreover have "0 < sin (radians (lat1 - lat2))"
    using assms by (rule sin_radians_pos')
  ultimately show ?thesis
    by (simp add: azimuth_def Let_def atan2_def degrees_def py_mod_small)
qed

lemma azimuth_east:
  assumes "0 < lon2 - lon1" "lon2 - lon1 < 180"
  shows "azimuth lon1 0 lon2 0 = 90"
proof -
  have "0 < sin (radians (lon2 - lon1))"
    using assms by (rule sin_radians_pos')
  then show ?thesis
    by (simp add: azimuth_def Let_def atan2_def degrees_def py_mod_small radians_diff
          radians_def [of 0])
qed

lemma azimuth_west:
  assumes "0 < lon1 - lon2" "lon1 - lon2 < 180"
  shows "azimuth lon1 0 lon2 0 = 270"
proof -
  have "0 < sin (radians (lon1 - lon2))"
    using assms by (rule sin_radians_pos')
  moreover have "radians (lon2 - lon1) = - radians (lon1 - lon2)"
    unfolding radians_def by (simp add: field_simps)
  moreover have "py_mod (- 90) 360 = 270"
    using py_mod_neg [of 90 360] by simp
  ultimately show ?thesis
    by (simp add: azimuth_def Let_def atan2_def degrees_def radians_diff radians_def [of 0])
qed

lemma sqrt_sum_pos:
  assumes "0 < x"
  shows "sqrt (x\<^sup>2 + y\<^sup>2) = x * sqrt (1 + (y / x)\<^sup>2)"
proof -
  have "x\<^sup>2 + y\<^sup>2 = x\<^sup>2 * (1 + (y / x)\<^sup>2)"
    using assms by (simp add: field_simps power2_eq_square)
  then show ?thesis
    using assms by (simp add: real_sqrt_mult)
qed

lemma sqrt_sum_neg:
  assumes "x < 0"
  shows "sqrt (x\<^sup>2 + y\<^sup>2) = - x * sqrt (1 + (y / x)\<^sup>2)"
proof -
  have "x\<^sup>2 + y\<^sup>2 = (- x)\<^sup>2 * (1 + (y / x)\<^sup>2)"
    using assms by (simp add: field_simps power2_eq_square)
  then show ?thesis
    using assms by (simp add: real_sqrt_mult del: power2_minus)
qed

lemma sqrt_one_plus_pos: "0 < sqrt (1 + (t::real)\<^sup>2)"
  by (simp add: add_pos_nonneg)

lemma atan2_direction:
  "sin (atan2 y x) * sqrt (x\<^sup>2 + y\<^sup>2) = y \<and> cos (atan2 y x) * sqrt (x\<^sup>2 + y\<^sup>2) = x"
proof -
  consider "0 < x" | "x < 0" | "x = 0" by linarith
  then show ?thesis
  proof cases
    case 1
    have nz: "sqrt (1 + (y / x)\<^sup>2) \<noteq> 0" using sqrt_one_plus_pos [of "y / x"] by simp
    show ?thesis
      using 1 nz
      by (simp add: atan2_def sin_arctan cos_arctan sqrt_sum_pos [OF 1]
            del: real_sqrt_eq_zero_cancel_iff)
  next
    case 2
    have nz: "sqrt (1 + (y / x)\<^sup>2) \<noteq> 0" using sqrt_one_plus_pos [of "y / x"] by simp
    show ?thesis
      using 2 nz
      by (simp add: atan2_def sin_arctan cos_arctan sqrt_sum_neg [OF 2]
            del: real_sqrt_eq_zero_cancel_iff)
  next
    case 3
    then show ?thesis
      by (simp add: atan2_def)
  qed
qed

lemma radians_py_mod:
  "sin (radians (py_mod d 360)) = sin (radians d)"
  "cos (radians (py_mod d 360)) = cos (radians d)"
proof -
  have "radians (py_mod d 360) = radians d - 2 * pi * of_int \<lfloor>d / 360\<rfloor>"
    by (simp add: radians_def py_mod_def field_simps)
  then show "sin (radians (py_mod d 360)) = sin (radians d)"
    "cos (radians (py_mod d 360)) = cos (radians d)"
    by (simp_all add: sin_diff cos_diff)
qed

lemma radians_degrees: "radians (degrees b) = b"
  by (simp add: radians_def degrees_def)

lemma azimuth_direction:
  "sin (radians (azimuth lon1 lat1 lon2 lat2))
     * sqrt ((cos (radians lat1) * sin (radians lat2)
              - sin (radians lat1) * cos (radians lat2) * cos (radians lon2 - radians lon1))\<^sup>2
             + (sin (radians lon2 - radians lon1) * cos (radians lat2))\<^sup>2)
     = sin (radians lon2 - radians lon1) * cos (radians lat2)
   \<and> cos (radians (azimuth lon1 lat1 lon2 lat2))
     * sqrt ((cos (radians lat1) * sin (radians lat2)
              - sin (radians lat1) * cos (radians lat2) * cos (radians lon2 - radians lon1))\<^sup>2
             + (sin (radians lon2 - radians lon1) * cos (radians lat2))\<^sup>2)
     = cos (radians lat1) * sin (radians lat2)
         - sin (radians lat1) * cos (radians lat2) * cos (radians lon2 - radians lon1)"
  unfolding azimuth_def Let_def radians_py_mod radians_degrees
  by (rule atan2_direction)

text \<open>
  Claim C7. The azimuth is the initial bearing in degrees in \<open>[0, 360)\<close>: its sine and
  cosine are the east and the north component of the direction of the great circle at the
  first point, divided by their length. It is 0 due north (north component positive, no
  east component; in particular along a meridian to a greater latitude), 90 due east
  (along the equator to a greater longitude), 180 due south and 270 due west. For all
  points, identical ones included, it has a value, and the value is in \<open>[0, 360)\<close>.
\<close>

theorem azimuth_cardinal_directions:
  "(let east = sin (radians lon2 - radians lon1) * cos (radians lat2);
        north = cos (radians lat1) * sin (radians lat2)
                  - sin (radians lat1) * cos (radians lat2) * cos (radians lon2 - radians lon1);
        az = azimuth lon1 lat1 lon2 lat2
    in sin (radians az) * sqrt (north\<^sup>2 + east\<^sup>2) = east
     \<and> cos (radians az) * sqrt (north\<^sup>2 + east\<^sup>2) = north
     \<and> (east = 0 \<and> 0 < north \<longrightarrow> az = 0)
     \<and> (north = 0 \<and> 0 < east \<longrightarrow> az = 90)
     \<and> (east = 0 \<and> north < 0 \<longrightarrow> az = 180)
     \<and> (north = 0 \<and> east < 0 \<longrightarrow> az = 270))
   \<and> (lon1 = lon2 \<and> lat1 < lat2 \<and> lat2 - lat1 < 180 \<longrightarrow> azimuth lon1 lat1 lon2 lat2 = 0)
   \<and> (lat1 = 0 \<and> lat2 = 0 \<and> lon1 < lon2 \<and> lon2 - lon1 < 180 \<longrightarrow>
        azimuth lon1 lat1 lon2 lat2 = 90)
   \<and> (lon1 = lon2 \<and> lat2 < lat1 \<and> lat1 - lat2 < 180 \<longrightarrow> azimuth lon1 lat1 lon2 lat2 = 180)
   \<and> (lat1 = 0 \<and> lat2 = 0 \<and> lon2 < lon1 \<and> lon1 - lon2 < 180 \<longrightarrow>
        azimuth lon1 lat1 lon2 lat2 = 270)
   \<and> 0 \<le> azimuth lon1 lat1 lon2 lat2 \<and> azimuth lon1 lat1 lon2 lat2 < 360
   \<and> 0 \<le> azimuth lon1 lat1 lon1 lat1 \<and> azimuth lon1 lat1 lon1 lat1 < 360"
proof -
  define east where "east = sin (radians lon2 - radians lon1) * cos (radians lat2)"
  define north where "north = cos (radians lat1) * sin (radians lat2)
                  - sin (radians lat1) * cos (radians lat2) * cos (radians lon2 - radians lon1)"
  have az: "azimuth lon1 lat1 lon2 lat2 = py_mod (degrees (atan2 east north)) 360"
    by (simp add: azimuth_def Let_def east_def north_def)
  have dir: "sin (radians (azimuth lon1 lat1 lon2 lat2)) * sqrt (north\<^sup>2 + east\<^sup>2) = east
     \<and> cos (radians (azimuth lon1 lat1 lon2 lat2)) * sqrt (north\<^sup>2 + east\<^sup>2) = north"
    unfolding east_def north_def by (rule azimuth_direction)
  have n: "azimuth lon1 lat1 lon2 lat2 = 0" if "east = 0" "0 < north"
    using that by (simp add: az atan2_def degrees_def py_mod_def)
  have e: "azimuth lon1 lat1 lon2 lat2 = 90" if "north = 0" "0 < east"
    using that by (simp add: az atan2_def degrees_def py_mod_small)
  have s: "azimuth lon1 lat1 lon2 lat2 = 180" if "east = 0" "north < 0"
    using that by (simp add: az atan2_def degrees_def py_mod_small)
  have "py_mod (- 90) 360 = 270"
    using py_mod_neg [of 90 360] by simp
  then have w: "azimuth lon1 lat1 lon2 lat2 = 270" if "north = 0" "east < 0"
    using that by (simp add: az atan2_def degrees_def)
  have comp: "let east' = east; north' = north; az = azimuth lon1 lat1 lon2 lat2
    in sin (radians az) * sqrt (north'\<^sup>2 + east'\<^sup>2) = east'
     \<and> cos (radians az) * sqrt (north'\<^sup>2 + east'\<^sup>2) = north'
     \<and> (east' = 0 \<and> 0 < north' \<longrightarrow> az = 0)
     \<and> (north' = 0 \<and> 0 < east' \<longrightarrow> az = 90)
     \<and> (east' = 0 \<and> north' < 0 \<longrightarrow> az = 180)
     \<and> (north' = 0 \<and> east' < 0 \<longrightarrow> az = 270)"
    unfolding Let_def using dir n e s w by blast
  have mer_n: "azimuth lon1 lat1 lon2 lat2 = 0"
    if "lon1 = lon2" "lat1 < lat2" "lat2 - lat1 < 180"
    using that azimuth_north [of lat2 lat1 lon1] by simp
  have equ_e: "azimuth lon1 lat1 lon2 lat2 = 90"
    if "lat1 = 0" "lat2 = 0" "lon1 < lon2" "lon2 - lon1 < 180"
    using that azimuth_east [of lon2 lon1] by simp
  have mer_s: "azimuth lon1 lat1 lon2 lat2 = 180"
    if "lon1 = lon2" "lat2 < lat1" "lat1 - lat2 < 180"
    using that azimuth_south [of lat1 lat2 lon1] by simp
  have equ_w: "azimuth lon1 lat1 lon2 lat2 = 270"
    if "lat1 = 0" "lat2 = 0" "lon2 < lon1" "lon1 - lon2 < 180"
    using that azimuth_west [of lon1 lon2] by simp
  have r: "0 \<le> azimuth a b c d \<and> azimuth a b c d < 360" for a b c d
    unfolding azimuth_def Let_def by (rule py_mod_range) simp
  show ?thesis
    using comp [unfolded east_def north_def] mer_n equ_e mer_s equ_w
      r [of lon1 lat1 lon2 lat2] r [of lon1 lat1 lon1 lat1]
    by blast
qed

theorem azimuth_cardinal_directions_witness:
  "azimuth 0 0 0 1 = 0 \<and> azimuth 0 0 1 0 = 90 \<and> azimuth 0 2 0 1 = 180 \<and> azimuth 1 0 0 0 = 270"
proof -
  have "azimuth 0 0 0 1 = 0"
    using azimuth_cardinal_directions [of 0 0 1 0] by simp
  moreover have "azimuth 0 0 1 0 = 90"
    using azimuth_cardinal_directions [of 1 0 0 0] by simp
  moreover have "azimuth 0 2 0 1 = 180"
    using azimuth_cardinal_directions [of 0 0 1 2] by simp
  moreover have "azimuth 1 0 0 0 = 270"
    using azimuth_cardinal_directions [of 0 1 0 0] by simp
  ultimately show ?thesis by simp
qed

end
